theory Spec2Isabelle
  imports Complex_Main "HOL-Library.Log_Nat"
begin

section \<open>Data model\<close>

text \<open>
  The server (\<^verbatim>\<open>services/api/src/server.ts\<close>) is a set of Express routes over a
  relational store reached through Prisma, plus a socket.io relay. The store is
  modelled as a record of tables; every table is the list of its rows in insertion
  order. Identifiers are the opaque strings Prisma generates. Creation timestamps are
  left out; the order of the rows stands for them.

  A JavaScript number is a double: a finite value, an infinity or NaN (the two zeros
  are taken for one: the server never tells them apart). What the server computes,
  the total of a cart, is such a number. A price or a total in the store is a finite
  number and is kept as the rational it stands for. Quantities and stock pass zod's
  \<^verbatim>\<open>int()\<close> and are kept as integers.
\<close>

type_synonym ident = string

datatype number = Finite rat | PosInfinity | NegInfinity | NaN

fun finite_value :: "number \<Rightarrow> rat option" where
  "finite_value (Finite r) = Some r"
| "finite_value PosInfinity = None"
| "finite_value NegInfinity = None"
| "finite_value NaN = None"

record user =
  u_id :: ident
  u_email :: string
  u_name :: string
  u_password :: string
  u_isAdmin :: bool

record product =
  p_id :: ident
  p_name :: string
  p_description :: "string option"
  p_price :: rat
  p_stock :: int

record cart =
  c_id :: ident
  c_userId :: ident

record cartItem =
  ci_id :: ident
  ci_cartId :: ident
  ci_productId :: ident
  ci_quantity :: int

record order =
  o_id :: ident
  o_userId :: ident
  o_total :: rat
  o_status :: string

record orderItem =
  oi_id :: ident
  oi_orderId :: ident
  oi_productId :: ident
  oi_quantity :: int
  oi_price :: rat

record message =
  m_id :: ident
  m_userId :: ident
  m_content :: string

record db =
  users :: "user list"
  products :: "product list"
  carts :: "cart list"
  cartItems :: "cartItem list"
  orders :: "order list"
  orderItems :: "orderItem list"
  messages :: "message list"

text \<open>What a Prisma call can throw: each constructor is a rejected promise.\<close>

datatype prisma_error =
    UniqueConstraint
  | ForeignKeyConstraint
  | RecordNotFound
  | InconsistentResult
  | ValueOutOfRange

section \<open>External libraries\<close>

text \<open>
  jsonwebtoken, bcrypt and zod's e-mail check are libraries outside the repository.
  They are parameters of the model: \<open>jwt_sign\<close> is \<^verbatim>\<open>jwt.sign(payload, JWT_SECRET)\<close>,
  \<open>jwt_verify\<close> is \<^verbatim>\<open>jwt.verify(token, JWT_SECRET, cb)\<close> with \<open>None\<close> for a call-back
  that receives an error (bad signature, malformed or expired token), \<open>bcrypt_hash\<close>
  is \<^verbatim>\<open>bcrypt.hash(password, 10)\<close> and \<open>z_email\<close> is \<^verbatim>\<open>z.string().email()\<close>.

  The arithmetic of JavaScript numbers is a parameter as well: \<open>num_add\<close> is \<^verbatim>\<open>+\<close>
  and \<open>num_mul\<close> is \<^verbatim>\<open>*\<close> on doubles. No statement below uses a law of arithmetic,
  so each holds of the rounding arithmetic the server runs on.
\<close>

record payload =
  pl_id :: ident
  pl_email :: string

record env =
  jwt_sign :: "payload \<Rightarrow> string"
  jwt_verify :: "string \<Rightarrow> payload option"
  bcrypt_hash :: "string \<Rightarrow> string"
  z_email :: "string \<Rightarrow> bool"
  num_add :: "number \<Rightarrow> number \<Rightarrow> number"
  num_mul :: "number \<Rightarrow> number \<Rightarrow> number"

section \<open>HTTP responses\<close>

record pub_user =
  pu_id :: ident
  pu_email :: string
  pu_name :: string

datatype body =
    ErrorBody string
  | InvalidInput "string list"
  | MessageBody string
  | AuthBody pub_user string
  | ProductBody product
  | OrderBody order "(orderItem \<times> product) list"
  | ChatBody message user
  | MadeAdminBody string user

record response =
  status :: nat
  body :: body

definition json_error :: "nat \<Rightarrow> string \<Rightarrow> response" where
  "json_error code msg = \<lparr>status = code, body = ErrorBody msg\<rparr>"

definition json_ok :: "body \<Rightarrow> response" where
  "json_ok b = \<lparr>status = 200, body = b\<rparr>"

section \<open>Identifier generation\<close>

text \<open>
  Modelled from the spec: the schema file (\<^verbatim>\<open>prisma/schema.prisma\<close>) is not part of
  the sources, so the default of the \<open>id\<close> columns is unknown. The spec only calls
  them identifiers. The generator is modelled as a function of the identifiers in
  use that returns one not among them (it is longer than each of them).
\<close>

definition fresh_id :: "ident list \<Rightarrow> ident" where
  "fresh_id used = replicate (Suc (foldr (\<lambda>s m. max (length s) m) used 0)) CHR ''#''"

section \<open>The bearer-token middleware\<close>

text \<open>JavaScript's \<^verbatim>\<open>s.split(' ')\<close>: one piece more than there are blanks.\<close>

fun split_blank :: "string \<Rightarrow> string list" where
  "split_blank [] = [[]]"
| "split_blank (c # cs) =
     (if c = CHR '' '' then [] # split_blank cs
      else (case split_blank cs of
              [] \<Rightarrow> [[c]]
            | w # ws \<Rightarrow> (c # w) # ws))"

text \<open>
  \<^verbatim>\<open>authHeader && authHeader.split(' ')[1]\<close>: \<open>None\<close> is \<^verbatim>\<open>undefined\<close>; a missing
  header and a missing second piece give \<^verbatim>\<open>undefined\<close>, an empty header gives
  the empty string.
\<close>

definition header_token :: "string option \<Rightarrow> string option" where
  "header_token authHeader =
     (case authHeader of
        None \<Rightarrow> None
      | Some h \<Rightarrow>
          if h = [] then Some []
          else (case split_blank h of
                  _ # t # _ \<Rightarrow> Some t
                | _ \<Rightarrow> None))"

text \<open>\<^verbatim>\<open>!token\<close>: \<^verbatim>\<open>undefined\<close> and the empty string are falsy.\<close>

definition falsy :: "string option \<Rightarrow> bool" where
  "falsy v = (case v of None \<Rightarrow> True | Some s \<Rightarrow> s = [])"

text \<open>
  \<open>authenticateToken\<close>: \<open>next\<close> is the rest of the route (the following middleware
  and the handler), which receives the verified payload as \<^verbatim>\<open>req.user\<close>.
\<close>

definition authenticateToken ::
  "env \<Rightarrow> string option \<Rightarrow> (payload \<Rightarrow> db \<Rightarrow> db \<times> response) \<Rightarrow> db \<Rightarrow> db \<times> response" where
  "authenticateToken e authHeader next d =
     (let token = header_token authHeader in
      if falsy token then (d, json_error 401 ''Access token required'')
      else (case jwt_verify e (the token) of
              None \<Rightarrow> (d, json_error 403 ''Invalid token'')
            | Some u \<Rightarrow> next u d))"

definition user_findUnique_id :: "db \<Rightarrow> ident \<Rightarrow> user option" where
  "user_findUnique_id d i = find (\<lambda>u. u_id u = i) (users d)"

text \<open>\<open>requireAdmin\<close>: runs after \<open>authenticateToken\<close>, so \<^verbatim>\<open>req.user\<close> is set.\<close>

definition requireAdmin :: "(db \<Rightarrow> db \<times> response) \<Rightarrow> payload \<Rightarrow> db \<Rightarrow> db \<times> response" where
  "requireAdmin next u d =
     (case user_findUnique_id d (pl_id u) of
        None \<Rightarrow> (d, json_error 403 ''Admin access required'')
      | Some usr \<Rightarrow>
          if \<not> u_isAdmin usr then (d, json_error 403 ''Admin access required'')
          else next d)"

section \<open>The store\<close>

text \<open>
  Modelled from the spec: the schema file is absent, so the constraints the
  database enforces are taken from the spec's data model and from the relations the
  code joins over (\<^verbatim>\<open>include\<close>): e-mail addresses are unique, a cart belongs to
  one existing user and a user has at most one cart, a cart line names an existing
  cart and an existing product, an order names an existing user and its items
  existing products, a message names an existing user. A new user is not an
  administrator and a new order has the status \<^verbatim>\<open>pending\<close>. The quantity of a
  cart line is an integer column: Prisma's \<^verbatim>\<open>Int\<close>, 32 bits and signed (the code
  adds it to a number, which a \<^verbatim>\<open>BigInt\<close> column would not allow). The total of
  an order is a \<^verbatim>\<open>Float\<close> column, which holds the finite numbers. A violated
  constraint rejects the call, as do a quantity outside the column's range, a total
  that is not finite and an update of a row that does not exist.
\<close>

definition int4 :: "int \<Rightarrow> bool" where
  "int4 v = (- 2147483648 \<le> v \<and> v \<le> 2147483647)"

definition user_create :: "db \<Rightarrow> string \<Rightarrow> string \<Rightarrow> string \<Rightarrow> prisma_error + (db \<times> user)" where
  "user_create d em nm pw =
     (if em \<in> set (map u_email (users d)) then Inl UniqueConstraint
      else
        (let u = \<lparr>u_id = fresh_id (map u_id (users d)), u_email = em, u_name = nm,
                  u_password = pw, u_isAdmin = False\<rparr>
         in Inr (d\<lparr>users := users d @ [u]\<rparr>, u)))"

definition user_update_isAdmin :: "db \<Rightarrow> ident \<Rightarrow> bool \<Rightarrow> prisma_error + (db \<times> user)" where
  "user_update_isAdmin d i b =
     (case user_findUnique_id d i of
        None \<Rightarrow> Inl RecordNotFound
      | Some u \<Rightarrow>
          Inr (d\<lparr>users := map (\<lambda>x. if u_id x = i then x\<lparr>u_isAdmin := b\<rparr> else x) (users d)\<rparr>,
               u\<lparr>u_isAdmin := b\<rparr>))"

definition product_findUnique :: "db \<Rightarrow> ident \<Rightarrow> product option" where
  "product_findUnique d i = find (\<lambda>p. p_id p = i) (products d)"

record product_body =
  pb_name :: string
  pb_description :: "string option"
  pb_price :: rat
  pb_stock :: int

text \<open>A field given as \<^verbatim>\<open>undefined\<close> (here: a missing description) is left as it is.\<close>

definition apply_product_body :: "product_body \<Rightarrow> product \<Rightarrow> product" where
  "apply_product_body b p =
     p\<lparr>p_name := pb_name b,
       p_description := (case pb_description b of None \<Rightarrow> p_description p | Some t \<Rightarrow> Some t),
       p_price := pb_price b,
       p_stock := pb_stock b\<rparr>"

definition product_update :: "db \<Rightarrow> ident \<Rightarrow> product_body \<Rightarrow> prisma_error + (db \<times> product)" where
  "product_update d i b =
     (case product_findUnique d i of
        None \<Rightarrow> Inl RecordNotFound
      | Some p \<Rightarrow>
          Inr (d\<lparr>products := map (\<lambda>x. if p_id x = i then apply_product_body b x else x) (products d)\<rparr>,
               apply_product_body b p))"

definition cart_findUnique :: "db \<Rightarrow> ident \<Rightarrow> cart option" where
  "cart_findUnique d uid = find (\<lambda>c. c_userId c = uid) (carts d)"

definition cart_create :: "db \<Rightarrow> ident \<Rightarrow> prisma_error + (db \<times> cart)" where
  "cart_create d uid =
     (if uid \<notin> set (map u_id (users d)) then Inl ForeignKeyConstraint
      else if uid \<in> set (map c_userId (carts d)) then Inl UniqueConstraint
      else
        (let c = \<lparr>c_id = fresh_id (map c_id (carts d)), c_userId = uid\<rparr>
         in Inr (d\<lparr>carts := carts d @ [c]\<rparr>, c)))"

definition cartItem_findFirst :: "db \<Rightarrow> ident \<Rightarrow> ident \<Rightarrow> cartItem option" where
  "cartItem_findFirst d cid pid =
     find (\<lambda>i. ci_cartId i = cid \<and> ci_productId i = pid) (cartItems d)"

definition cartItem_update :: "db \<Rightarrow> ident \<Rightarrow> int \<Rightarrow> prisma_error + db" where
  "cartItem_update d i q =
     (if \<not> int4 q then Inl ValueOutOfRange
      else if i \<notin> set (map ci_id (cartItems d)) then Inl RecordNotFound
      else Inr (d\<lparr>cartItems :=
                   map (\<lambda>x. if ci_id x = i then x\<lparr>ci_quantity := q\<rparr> else x) (cartItems d)\<rparr>))"

definition cartItem_create :: "db \<Rightarrow> ident \<Rightarrow> ident \<Rightarrow> int \<Rightarrow> prisma_error + db" where
  "cartItem_create d cid pid q =
     (if \<not> int4 q then Inl ValueOutOfRange
      else if cid \<notin> set (map c_id (carts d)) then Inl ForeignKeyConstraint
      else if pid \<notin> set (map p_id (products d)) then Inl ForeignKeyConstraint
      else Inr (d\<lparr>cartItems := cartItems d @
                   [\<lparr>ci_id = fresh_id (map ci_id (cartItems d)), ci_cartId = cid,
                     ci_productId = pid, ci_quantity = q\<rparr>]\<rparr>))"

definition cartItem_deleteMany :: "db \<Rightarrow> (cartItem \<Rightarrow> bool) \<Rightarrow> db" where
  "cartItem_deleteMany d wh = d\<lparr>cartItems := filter (\<lambda>i. \<not> wh i) (cartItems d)\<rparr>"

text \<open>
  \<^verbatim>\<open>cart.findUnique({ where: { userId }, include: { items: { include: { product: true } } } })\<close>:
  the cart with its lines, each joined with its product. The relation is required,
  so a line without a product makes the query fail.
\<close>

definition include_product :: "db \<Rightarrow> cartItem \<Rightarrow> (cartItem \<times> product) option" where
  "include_product d i = map_option (Pair i) (product_findUnique d (ci_productId i))"

definition cart_items :: "db \<Rightarrow> ident \<Rightarrow> cartItem list" where
  "cart_items d cid = filter (\<lambda>i. ci_cartId i = cid) (cartItems d)"

definition cart_findUnique_items ::
  "db \<Rightarrow> ident \<Rightarrow> prisma_error + (cart \<times> (cartItem \<times> product) list) option" where
  "cart_findUnique_items d uid =
     (case cart_findUnique d uid of
        None \<Rightarrow> Inr None
      | Some c \<Rightarrow>
          (case those (map (include_product d) (cart_items d (c_id c))) of
             None \<Rightarrow> Inl InconsistentResult
           | Some its \<Rightarrow> Inr (Some (c, its))))"

text \<open>The rows of a nested \<^verbatim>\<open>items: { create: [...] }\<close>, each with a new identifier.\<close>

fun new_orderItems :: "ident list \<Rightarrow> ident \<Rightarrow> (ident \<times> int \<times> rat) list \<Rightarrow> orderItem list" where
  "new_orderItems used oid [] = []"
| "new_orderItems used oid ((pid, q, pr) # ls) =
     (let i = fresh_id used
      in \<lparr>oi_id = i, oi_orderId = oid, oi_productId = pid, oi_quantity = q, oi_price = pr\<rparr>
           # new_orderItems (i # used) oid ls)"

definition include_order_product :: "db \<Rightarrow> orderItem \<Rightarrow> (orderItem \<times> product) option" where
  "include_order_product d i = map_option (Pair i) (product_findUnique d (oi_productId i))"

text \<open>
  \<^verbatim>\<open>order.create\<close> with nested items: one write, the order and its items are stored
  together or not at all. The result includes the items joined with their products.
  The total handed over is the number the server has computed; the write is rejected
  when it is not finite.
\<close>

definition order_create ::
  "db \<Rightarrow> ident \<Rightarrow> number \<Rightarrow> (ident \<times> int \<times> rat) list
     \<Rightarrow> prisma_error + (db \<times> order \<times> (orderItem \<times> product) list)" where
  "order_create d uid tot ls =
     (case finite_value tot of
        None \<Rightarrow> Inl ValueOutOfRange
      | Some t \<Rightarrow>
          (if uid \<notin> set (map u_id (users d)) then Inl ForeignKeyConstraint
           else if \<not> list_all (\<lambda>l. fst l \<in> set (map p_id (products d))) ls
           then Inl ForeignKeyConstraint
           else
             (let oid = fresh_id (map o_id (orders d));
                  ord = \<lparr>o_id = oid, o_userId = uid, o_total = t, o_status = ''pending''\<rparr>;
                  its = new_orderItems (map oi_id (orderItems d)) oid ls
              in (case those (map (include_order_product d) its) of
                    None \<Rightarrow> Inl InconsistentResult
                  | Some js \<Rightarrow>
                      Inr (d\<lparr>orders := orders d @ [ord], orderItems := orderItems d @ its\<rparr>,
                           ord, js)))))"

definition message_create :: "db \<Rightarrow> ident \<Rightarrow> string \<Rightarrow> prisma_error + (db \<times> message \<times> user)" where
  "message_create d uid content =
     (case user_findUnique_id d uid of
        None \<Rightarrow> Inl ForeignKeyConstraint
      | Some u \<Rightarrow>
          (let m = \<lparr>m_id = fresh_id (map m_id (messages d)), m_userId = uid, m_content = content\<rparr>
           in Inr (d\<lparr>messages := messages d @ [m]\<rparr>, m, u)))"

section \<open>Routes\<close>

text \<open>
  A request body is modelled with the field types its schema demands; a body of
  another shape is rejected by zod before the store is touched. \<open>InvalidInput\<close>
  lists the fields whose value the schema refuses. Unless said otherwise a handler
  is modelled on a store whose calls are rejected only for the reasons of the
  section above.
\<close>

definition invalid_input :: "string list \<Rightarrow> response" where
  "invalid_input issues = \<lparr>status = 400, body = InvalidInput issues\<rparr>"

subsection \<open>\<^verbatim>\<open>POST /auth/register\<close>\<close>

record register_body =
  rb_email :: string
  rb_name :: string
  rb_password :: string

definition registerSchema :: "env \<Rightarrow> register_body \<Rightarrow> string list" where
  "registerSchema e b =
     (if z_email e (rb_email b) then [] else [''email'']) @
     (if 1 \<le> length (rb_name b) then [] else [''name'']) @
     (if 6 \<le> length (rb_password b) then [] else [''password''])"

definition post_auth_register :: "env \<Rightarrow> register_body \<Rightarrow> db \<Rightarrow> db \<times> response" where
  "post_auth_register e b d =
     (if registerSchema e b \<noteq> [] then (d, invalid_input (registerSchema e b))
      else
        (let hashedPassword = bcrypt_hash e (rb_password b) in
         case user_create d (rb_email b) (rb_name b) hashedPassword of
           Inl err \<Rightarrow> (d, json_error 500 ''Failed to register'')
         | Inr (d', usr) \<Rightarrow>
             (let token = jwt_sign e \<lparr>pl_id = u_id usr, pl_email = u_email usr\<rparr>
              in (d', json_ok (AuthBody \<lparr>pu_id = u_id usr, pu_email = u_email usr,
                                         pu_name = u_name usr\<rparr> token)))))"

subsection \<open>\<^verbatim>\<open>PUT /admin/products/:id\<close>\<close>

definition productSchema :: "product_body \<Rightarrow> string list" where
  "productSchema b =
     (if 1 \<le> length (pb_name b) then [] else [''name'']) @
     (if 0 < pb_price b then [] else [''price'']) @
     (if 0 \<le> pb_stock b then [] else [''stock''])"

definition put_admin_products_handler :: "ident \<Rightarrow> product_body \<Rightarrow> db \<Rightarrow> db \<times> response" where
  "put_admin_products_handler i b d =
     (if productSchema b \<noteq> [] then (d, invalid_input (productSchema b))
      else (case product_update d i b of
              Inl err \<Rightarrow> (d, json_error 500 ''Failed to update product'')
            | Inr (d', p) \<Rightarrow> (d', json_ok (ProductBody p))))"

definition put_admin_products ::
  "env \<Rightarrow> string option \<Rightarrow> ident \<Rightarrow> product_body \<Rightarrow> db \<Rightarrow> db \<times> response" where
  "put_admin_products e authHeader i b =
     authenticateToken e authHeader (requireAdmin (put_admin_products_handler i b))"

subsection \<open>\<^verbatim>\<open>POST /cart\<close> and \<^verbatim>\<open>DELETE /cart/:productId\<close>\<close>

record cart_body =
  cb_productId :: ident
  cb_quantity :: int

definition cartSchema :: "cart_body \<Rightarrow> string list" where
  "cartSchema b = (if 0 < cb_quantity b then [] else [''quantity''])"

text \<open>
  The part of the handler after the cart has been found or created.
  \<^verbatim>\<open>existingItem.quantity + quantity\<close> adds two numbers of integer value; the sum is
  written to the integer column. Where the exact sum is in the column's range the
  double sum is that integer; where it is not, the double sum is not either, and
  the store rejects it.
\<close>

definition add_line :: "cart \<Rightarrow> cart_body \<Rightarrow> db \<Rightarrow> db \<times> response" where
  "add_line c b d =
     (case cartItem_findFirst d (c_id c) (cb_productId b) of
        Some existingItem \<Rightarrow>
          (case cartItem_update d (ci_id existingItem) (ci_quantity existingItem + cb_quantity b) of
             Inl err \<Rightarrow> (d, json_error 500 ''Failed to add to cart'')
           | Inr d' \<Rightarrow> (d', json_ok (MessageBody ''Added to cart'')))
      | None \<Rightarrow>
          (case cartItem_create d (c_id c) (cb_productId b) (cb_quantity b) of
             Inl err \<Rightarrow> (d, json_error 500 ''Failed to add to cart'')
           | Inr d' \<Rightarrow> (d', json_ok (MessageBody ''Added to cart''))))"

definition post_cart_handler :: "cart_body \<Rightarrow> payload \<Rightarrow> db \<Rightarrow> db \<times> response" where
  "post_cart_handler b u d =
     (if cartSchema b \<noteq> [] then (d, invalid_input (cartSchema b))
      else (case cart_findUnique d (pl_id u) of
              Some c \<Rightarrow> add_line c b d
            | None \<Rightarrow>
                (case cart_create d (pl_id u) of
                   Inl err \<Rightarrow> (d, json_error 500 ''Failed to add to cart'')
                 | Inr (d', c) \<Rightarrow> add_line c b d')))"

definition post_cart :: "env \<Rightarrow> string option \<Rightarrow> cart_body \<Rightarrow> db \<Rightarrow> db \<times> response" where
  "post_cart e authHeader b = authenticateToken e authHeader (post_cart_handler b)"

definition delete_cart_handler :: "ident \<Rightarrow> payload \<Rightarrow> db \<Rightarrow> db \<times> response" where
  "delete_cart_handler productId u d =
     (case cart_findUnique d (pl_id u) of
        None \<Rightarrow> (d, json_error 404 ''Cart not found'')
      | Some c \<Rightarrow>
          (cartItem_deleteMany d (\<lambda>i. ci_cartId i = c_id c \<and> ci_productId i = productId),
           json_ok (MessageBody ''Removed from cart'')))"

definition delete_cart :: "env \<Rightarrow> string option \<Rightarrow> ident \<Rightarrow> db \<Rightarrow> db \<times> response" where
  "delete_cart e authHeader productId = authenticateToken e authHeader (delete_cart_handler productId)"

subsection \<open>\<^verbatim>\<open>POST /orders\<close>\<close>

text \<open>
  The handler awaits three store calls in turn. Any of them can also be rejected
  for a reason outside the state (the connection is lost, the database is down);
  \<open>fails\<close> says which calls are. A rejected call lands in the \<^verbatim>\<open>catch\<close> block, which
  answers 500 and undoes nothing.
\<close>

datatype store_call = FindCart | CreateOrder | ClearCart

definition no_failure :: "store_call \<Rightarrow> bool" where
  "no_failure c = False"

text \<open>
  \<^verbatim>\<open>cart.items.reduce((sum, item) => sum + item.product.price * item.quantity, 0)\<close>:
  a fold from the left over the lines in the order the query returns them (here the
  order of the table), in the arithmetic of JavaScript numbers. A stored price or
  quantity, read back, is the finite number with that value.
\<close>

definition num_of_int :: "int \<Rightarrow> number" where
  "num_of_int q = Finite (of_int q)"

definition cart_total :: "env \<Rightarrow> (cartItem \<times> product) list \<Rightarrow> number" where
  "cart_total e its =
     foldl (\<lambda>sum (item, prod). num_add e sum (num_mul e (Finite (p_price prod)) (num_of_int (ci_quantity item))))
       (Finite 0) its"

definition order_lines :: "(cartItem \<times> product) list \<Rightarrow> (ident \<times> int \<times> rat) list" where
  "order_lines its = map (\<lambda>(item, prod). (ci_productId item, ci_quantity item, p_price prod)) its"

definition post_orders_handler ::
  "env \<Rightarrow> (store_call \<Rightarrow> bool) \<Rightarrow> payload \<Rightarrow> db \<Rightarrow> db \<times> response" where
  "post_orders_handler e fails u d =
     (if fails FindCart then (d, json_error 500 ''Failed to create order'')
      else (case cart_findUnique_items d (pl_id u) of
              Inl err \<Rightarrow> (d, json_error 500 ''Failed to create order'')
            | Inr None \<Rightarrow> (d, json_error 400 ''Cart is empty'')
            | Inr (Some (c, its)) \<Rightarrow>
                if length its = 0 then (d, json_error 400 ''Cart is empty'')
                else if fails CreateOrder then (d, json_error 500 ''Failed to create order'')
                else (case order_create d (pl_id u) (cart_total e its) (order_lines its) of
                        Inl err \<Rightarrow> (d, json_error 500 ''Failed to create order'')
                      | Inr (d', ord, js) \<Rightarrow>
                          if fails ClearCart then (d', json_error 500 ''Failed to create order'')
                          else (cartItem_deleteMany d' (\<lambda>i. ci_cartId i = c_id c),
                                json_ok (OrderBody ord js)))))"

definition post_orders :: "env \<Rightarrow> (store_call \<Rightarrow> bool) \<Rightarrow> string option \<Rightarrow> db \<Rightarrow> db \<times> response" where
  "post_orders e fails authHeader = authenticateToken e authHeader (post_orders_handler e fails)"

subsection \<open>\<^verbatim>\<open>POST /messages\<close> and \<^verbatim>\<open>POST /admin/make-admin/:userId\<close>\<close>

record message_body =
  mb_userId :: ident
  mb_content :: string

text \<open>The route has no middleware; the header is an argument only to say so.\<close>

definition post_messages :: "string option \<Rightarrow> message_body \<Rightarrow> db \<Rightarrow> db \<times> response" where
  "post_messages authHeader b d =
     (case message_create d (mb_userId b) (mb_content b) of
        Inl err \<Rightarrow> (d, json_error 500 ''Failed to create message'')
      | Inr (d', m, usr) \<Rightarrow> (d', json_ok (ChatBody m usr)))"

definition make_admin_handler :: "ident \<Rightarrow> payload \<Rightarrow> db \<Rightarrow> db \<times> response" where
  "make_admin_handler userId u d =
     (case user_update_isAdmin d userId True of
        Inl err \<Rightarrow> (d, json_error 500 ''Failed to make user admin'')
      | Inr (d', usr) \<Rightarrow> (d', json_ok (MadeAdminBody ''User made admin'' usr)))"

definition post_admin_make_admin :: "env \<Rightarrow> string option \<Rightarrow> ident \<Rightarrow> db \<Rightarrow> db \<times> response" where
  "post_admin_make_admin e authHeader userId = authenticateToken e authHeader (make_admin_handler userId)"

section \<open>The chat relay\<close>

text \<open>
  socket.io is a library outside the repository. Its part used here is modelled:
  the server holds the connected sockets; a socket is in the room named by its own
  identifier from the moment it connects and in every room it has joined;
  \<^verbatim>\<open>io.emit\<close> sends one event to every connected socket and \<^verbatim>\<open>io.to(r).emit\<close> one
  event to every connected socket that is in room \<open>r\<close>.
\<close>

record socket =
  s_id :: string
  s_rooms :: "string list"

definition io_connection :: "socket list \<Rightarrow> socket list" where
  "io_connection socks =
     (let i = fresh_id (map s_id socks) in socks @ [\<lparr>s_id = i, s_rooms = [i]\<rparr>])"

definition on_join :: "string \<Rightarrow> string \<Rightarrow> socket list \<Rightarrow> socket list" where
  "on_join sid userId socks =
     map (\<lambda>s. if s_id s = sid then s\<lparr>s_rooms := List.insert userId (s_rooms s)\<rparr> else s) socks"

definition on_disconnect :: "string \<Rightarrow> socket list \<Rightarrow> socket list" where
  "on_disconnect sid socks = filter (\<lambda>s. s_id s \<noteq> sid) socks"

definition io_emit :: "socket list \<Rightarrow> 'a \<Rightarrow> (string \<times> 'a) list" where
  "io_emit socks ev = map (\<lambda>s. (s_id s, ev)) socks"

definition io_to_emit :: "string \<Rightarrow> socket list \<Rightarrow> 'a \<Rightarrow> (string \<times> 'a) list" where
  "io_to_emit r socks ev = map (\<lambda>s. (s_id s, ev)) (filter (\<lambda>s. r \<in> set (s_rooms s)) socks)"

record send_data =
  sd_userId :: ident
  sd_content :: string
  sd_recipientId :: "string option"

text \<open>
  The \<^verbatim>\<open>sendMessage\<close> handler: the result is the store and the \<^verbatim>\<open>newMessage\<close> events
  sent, each with the socket that receives it. A rejected \<^verbatim>\<open>message.create\<close> is
  logged and nothing is sent.
\<close>

definition on_sendMessage ::
  "send_data \<Rightarrow> socket list \<Rightarrow> db \<Rightarrow> db \<times> (string \<times> message \<times> user) list" where
  "on_sendMessage dat socks d =
     (case message_create d (sd_userId dat) (sd_content dat) of
        Inl err \<Rightarrow> (d, [])
      | Inr (d', m, usr) \<Rightarrow>
          if \<not> falsy (sd_recipientId dat)
          then (d', io_to_emit (the (sd_recipientId dat)) socks (m, usr))
          else (d', io_emit socks (m, usr)))"

section \<open>The arithmetic of doubles, for concrete runs\<close>

text \<open>
  IEEE 754 binary64 with rounding to nearest, ties to even: the exact result is
  rounded to 53 significant bits (fewer below \<open>2 powi (- 1022)\<close>), and to an
  infinity when the rounded value \<open>m * 2 powi q\<close> reaches \<open>2 ^ 1024\<close>, that is when
  \<open>m\<close> has more than \<open>1024 - q\<close> bits.
\<close>

definition ilog2 :: "rat \<Rightarrow> int" where
  "ilog2 x =
     (case quotient_of x of (a, b) \<Rightarrow>
        (let k = bitlen a - bitlen b in if 2 powi k \<le> x then k else k - 1))"

definition round_even :: "rat \<Rightarrow> int" where
  "round_even m =
     (let f = \<lfloor>m\<rfloor>; r = m - of_int f
      in if r < 1 / 2 then f else if 1 / 2 < r then f + 1 else if even f then f else f + 1)"

definition round64 :: "rat \<Rightarrow> number" where
  "round64 x =
     (if x = 0 then Finite 0
      else
        (let a = \<bar>x\<bar>;
             q = max (ilog2 a) (- 1022) - 52;
             m = round_even (a / 2 powi q);
             y = of_int m * 2 powi q
         in if 1024 < bitlen m + q then (if 0 < x then PosInfinity else NegInfinity)
            else Finite (if 0 < x then y else - y)))"

fun binary64_add :: "number \<Rightarrow> number \<Rightarrow> number" where
  "binary64_add (Finite a) (Finite b) = round64 (a + b)"
| "binary64_add NaN y = NaN"
| "binary64_add x NaN = NaN"
| "binary64_add PosInfinity NegInfinity = NaN"
| "binary64_add NegInfinity PosInfinity = NaN"
| "binary64_add PosInfinity y = PosInfinity"
| "binary64_add NegInfinity y = NegInfinity"
| "binary64_add x PosInfinity = PosInfinity"
| "binary64_add x NegInfinity = NegInfinity"

definition sign_of :: "number \<Rightarrow> int" where
  "sign_of x =
     (case x of
        Finite r \<Rightarrow> (if r = 0 then 0 else if 0 < r then 1 else - 1)
      | PosInfinity \<Rightarrow> 1
      | NegInfinity \<Rightarrow> - 1
      | NaN \<Rightarrow> 0)"

fun binary64_mul :: "number \<Rightarrow> number \<Rightarrow> number" where
  "binary64_mul (Finite a) (Finite b) = round64 (a * b)"
| "binary64_mul NaN y = NaN"
| "binary64_mul x NaN = NaN"
| "binary64_mul x y =
     (if sign_of x * sign_of y = 0 then NaN
      else if 0 < sign_of x * sign_of y then PosInfinity else NegInfinity)"

section \<open>A small shop, for concrete runs\<close>

text \<open>
  The example of the spec: a cart with two widgets at 10 and a gadget at 5. Alice is
  a customer with that cart, Bob an administrator without a cart, Carol a customer
  whose cart is empty.
\<close>

definition alice :: payload where
  "alice = \<lparr>pl_id = ''u1'', pl_email = ''alice@example.com''\<rparr>"

definition bob :: payload where
  "bob = \<lparr>pl_id = ''u2'', pl_email = ''bob@example.com''\<rparr>"

definition carol :: payload where
  "carol = \<lparr>pl_id = ''u3'', pl_email = ''carol@example.com''\<rparr>"

definition shop_env :: env where
  "shop_env =
     \<lparr>jwt_sign = (\<lambda>p. ''jwt-'' @ pl_id p),
      jwt_verify = (\<lambda>t. if t = ''jwt-u1'' then Some alice
                         else if t = ''jwt-u2'' then Some bob
                         else if t = ''jwt-u3'' then Some carol
                         else None),
      bcrypt_hash = (\<lambda>pw. ''hash-'' @ pw),
      z_email = (\<lambda>s. CHR ''@'' \<in> set s),
      num_add = binary64_add,
      num_mul = binary64_mul\<rparr>"

definition shop :: db where
  "shop =
     \<lparr>users =
        [\<lparr>u_id = ''u1'', u_email = ''alice@example.com'', u_name = ''Alice'',
          u_password = ''hash-secret1'', u_isAdmin = False\<rparr>,
         \<lparr>u_id = ''u2'', u_email = ''bob@example.com'', u_name = ''Bob'',
          u_password = ''hash-secret2'', u_isAdmin = True\<rparr>,
         \<lparr>u_id = ''u3'', u_email = ''carol@example.com'', u_name = ''Carol'',
          u_password = ''hash-secret3'', u_isAdmin = False\<rparr>],
      products =
        [\<lparr>p_id = ''p1'', p_name = ''Widget'', p_description = None, p_price = 10,
          p_stock = 7\<rparr>,
         \<lparr>p_id = ''p2'', p_name = ''Gadget'', p_description = Some ''small'', p_price = 5,
          p_stock = 3\<rparr>],
      carts = [\<lparr>c_id = ''c1'', c_userId = ''u1''\<rparr>, \<lparr>c_id = ''c3'', c_userId = ''u3''\<rparr>],
      cartItems =
        [\<lparr>ci_id = ''i1'', ci_cartId = ''c1'', ci_productId = ''p1'', ci_quantity = 2\<rparr>,
         \<lparr>ci_id = ''i2'', ci_cartId = ''c1'', ci_productId = ''p2'', ci_quantity = 1\<rparr>],
      orders = [],
      orderItems = [],
      messages = []\<rparr>"

section \<open>Notions used in the statements\<close>

text \<open>
  The header carries a token that verifies, and \<open>u\<close> is its payload: the request
  passes \<open>authenticateToken\<close> as \<open>u\<close>.
\<close>

definition authenticated :: "env \<Rightarrow> string option \<Rightarrow> payload \<Rightarrow> bool" where
  "authenticated e authHeader u =
     (\<not> falsy (header_token authHeader) \<and> jwt_verify e (the (header_token authHeader)) = Some u)"

text \<open>The shop after Alice has ordered her cart.\<close>

definition shop_ordered :: db where
  "shop_ordered =
     shop\<lparr>cartItems := [],
          orders := [\<lparr>o_id = ''#'', o_userId = ''u1'', o_total = 25,
                      o_status = ''pending''\<rparr>],
          orderItems :=
            [\<lparr>oi_id = ''#'', oi_orderId = ''#'', oi_productId = ''p1'', oi_quantity = 2,
              oi_price = 10\<rparr>,
             \<lparr>oi_id = ''##'', oi_orderId = ''#'', oi_productId = ''p2'', oi_quantity = 1,
              oi_price = 5\<rparr>]\<rparr>"

text \<open>
  The references the database keeps valid (see the section on the store): a cart
  names a stored user, a cart line a stored cart and a stored product, and the
  identifiers of the cart lines are distinct.
\<close>

definition wf_db :: "db \<Rightarrow> bool" where
  "wf_db d =
     (list_all (\<lambda>c. c_userId c \<in> set (map u_id (users d))) (carts d) \<and>
      list_all (\<lambda>i. ci_cartId i \<in> set (map c_id (carts d)) \<and>
                    ci_productId i \<in> set (map p_id (products d))) (cartItems d) \<and>
      distinct (map ci_id (cartItems d)))"

text \<open>
  The spec's words: the lines of a user's cart, the current price of a line's
  product, and the cart total as the sum over the lines of price times quantity.
  The sum is taken line by line, in the arithmetic of JavaScript numbers: with
  doubles the result depends on the order and need not be the exact sum (three
  times the double nearest to 0.1 is not the double the server computes).
\<close>

definition user_cart_lines :: "db \<Rightarrow> ident \<Rightarrow> cartItem list" where
  "user_cart_lines d uid =
     (case cart_findUnique d uid of None \<Rightarrow> [] | Some c \<Rightarrow> cart_items d (c_id c))"

definition line_price :: "db \<Rightarrow> cartItem \<Rightarrow> rat" where
  "line_price d i =
     (case product_findUnique d (ci_productId i) of None \<Rightarrow> 0 | Some p \<Rightarrow> p_price p)"

definition spec_cart_total :: "env \<Rightarrow> db \<Rightarrow> ident \<Rightarrow> number" where
  "spec_cart_total e d uid =
     foldl (\<lambda>sum i. num_add e sum (num_mul e (Finite (line_price d i)) (num_of_int (ci_quantity i))))
       (Finite 0) (user_cart_lines d uid)"

text \<open>The life of the relay's connections: sockets connect, join rooms and leave.\<close>

datatype socket_event = Connection | Join string string | Disconnect string

fun io_step :: "socket list \<Rightarrow> socket_event \<Rightarrow> socket list" where
  "io_step socks Connection = io_connection socks"
| "io_step socks (Join sid userId) = on_join sid userId socks"
| "io_step socks (Disconnect sid) = on_disconnect sid socks"

definition io_run :: "socket_event list \<Rightarrow> socket list" where
  "io_run evs = foldl io_step [] evs"

text \<open>Two customers connected, each in the room of their own user identifier.\<close>

definition two_sessions :: "socket list" where
  "two_sessions = io_run [Connection, Connection, Join ''#'' ''u1'', Join ''##'' ''u2'']"

text \<open>
  Sequences of cart calls of one user: each call is the handler of \<^verbatim>\<open>POST /cart\<close> or
  of \<^verbatim>\<open>DELETE /cart/:productId\<close>, run on the store the call before has left.
\<close>

datatype cart_call = AddToCart ident int | RemoveFromCart ident

fun cart_step :: "payload \<Rightarrow> db \<Rightarrow> cart_call \<Rightarrow> db" where
  "cart_step u d (AddToCart pid q) =
     fst (post_cart_handler \<lparr>cb_productId = pid, cb_quantity = q\<rparr> u d)"
| "cart_step u d (RemoveFromCart pid) = fst (delete_cart_handler pid u d)"

definition cart_run :: "payload \<Rightarrow> cart_call list \<Rightarrow> db \<Rightarrow> db" where
  "cart_run u calls d = foldl (cart_step u) d calls"

text \<open>
  The spec's cart: a quantity for every product, zero for a product without a
  line. Adding sums the quantity into the product's entry (a call with a quantity
  that is not positive, a product that does not exist or a sum outside the range of
  the quantity column is refused and changes nothing); removing empties the entry.
\<close>

definition cart_qty :: "db \<Rightarrow> ident \<Rightarrow> ident \<Rightarrow> int" where
  "cart_qty d uid pid =
     (\<Sum>i\<leftarrow>filter (\<lambda>i. ci_productId i = pid) (user_cart_lines d uid). ci_quantity i)"

fun spec_step :: "db \<Rightarrow> (ident \<Rightarrow> int) \<Rightarrow> cart_call \<Rightarrow> (ident \<Rightarrow> int)" where
  "spec_step d m (AddToCart pid q) =
     (if 0 < q \<and> pid \<in> set (map p_id (products d)) \<and> int4 (m pid + q)
      then m(pid := m pid + q) else m)"
| "spec_step d m (RemoveFromCart pid) = m(pid := 0)"

definition spec_run :: "db \<Rightarrow> cart_call list \<Rightarrow> (ident \<Rightarrow> int) \<Rightarrow> (ident \<Rightarrow> int)" where
  "spec_run d calls m = foldl (spec_step d) m calls"

text \<open>The line of a user's cart for a product, as \<^verbatim>\<open>POST /cart\<close> looks it up.\<close>

definition user_line :: "db \<Rightarrow> ident \<Rightarrow> ident \<Rightarrow> cartItem option" where
  "user_line d uid pid =
     (case cart_findUnique d uid of None \<Rightarrow> None | Some c \<Rightarrow> cartItem_findFirst d (c_id c) pid)"

text \<open>
  Every quantity in the cart lines is in the range of its column. Of such a
  quantity \<open>num_of_int\<close> is the double the server reads.
\<close>

definition quantities_in_range :: "db \<Rightarrow> bool" where
  "quantities_in_range d = list_all (\<lambda>i. int4 (ci_quantity i)) (cartItems d)"

text \<open>
  The quantity the call would leave in the line (the one sent, added to the one of
  the line if there is one) is in the range of the quantity column.
\<close>

definition quantity_fits :: "db \<Rightarrow> ident \<Rightarrow> ident \<Rightarrow> int \<Rightarrow> bool" where
  "quantity_fits d uid pid q =
     int4 ((case user_line d uid pid of None \<Rightarrow> 0 | Some ex \<Rightarrow> ci_quantity ex) + q)"

text \<open>At most one line for a product in the user's cart (the spec's data model).\<close>

definition one_line_per_product :: "db \<Rightarrow> ident \<Rightarrow> bool" where
  "one_line_per_product d uid = distinct (map ci_productId (user_cart_lines d uid))"

text \<open>
  The total the server computes from a user's cart: the reduction of
  \<^verbatim>\<open>POST /orders\<close> over the lines joined with their products; \<open>None\<close> when the join
  fails, zero when the user has no cart.
\<close>

definition computed_total :: "env \<Rightarrow> db \<Rightarrow> ident \<Rightarrow> number option" where
  "computed_total e d uid =
     (case cart_findUnique_items d uid of
        Inl err \<Rightarrow> None
      | Inr None \<Rightarrow> Some (Finite 0)
      | Inr (Some (c, its)) \<Rightarrow> Some (cart_total e its))"

section \<open>Doubles at the values of the example\<close>

lemma round64_small:
  "round64 5 = Finite 5" "round64 10 = Finite 10" "round64 20 = Finite 20"
  "round64 25 = Finite 25" "round64 30 = Finite 30"
  by code_simp+

text \<open>
  Three times the price 0.1: the double nearest to 0.1 is a little above it, and the
  product rounds up to 0.30000000000000004, which is neither three times that double
  nor the double nearest to 0.3.
\<close>

lemma round64_tenth:
  "round64 (1 / 10) = Finite (3602879701896397 / 36028797018963968)"
  "binary64_mul (Finite (3602879701896397 / 36028797018963968)) (num_of_int 3) =
     Finite (5404319552844596 / 18014398509481984)"
  "round64 (3 / 10) = Finite (5404319552844595 / 18014398509481984)"
  by code_simp+

section \<open>The middleware\<close>

lemma split_blank_word:
  "CHR '' '' \<notin> set w \<Longrightarrow> split_blank (w @ CHR '' '' # r) = w # split_blank r"
  by (induction w) (auto split: list.splits)

lemma split_blank_noblank:
  "CHR '' '' \<notin> set w \<Longrightarrow> split_blank w = [w]"
  by (induction w) (auto split: list.splits)

text \<open>The header a client sends, \<^verbatim>\<open>Bearer <token>\<close>, yields the token.\<close>

lemma header_token_bearer:
  assumes "t \<noteq> []" "CHR '' '' \<notin> set t"
  shows "header_token (Some (''Bearer '' @ t)) = Some t"
proof -
  have "split_blank (''Bearer'' @ CHR '' '' # t) = ''Bearer'' # split_blank t"
    by (rule split_blank_word) simp
  then show ?thesis using assms
    by (simp add: header_token_def split_blank_noblank)
qed

lemma authenticateToken_ok:
  "authenticated e h u \<Longrightarrow> authenticateToken e h next d = next u d"
  by (simp add: authenticated_def authenticateToken_def)

text \<open>
  C7, as the code has it. A request without a token (no header, an empty header, a
  header without a second piece or with an empty one) is answered 401
  \<^verbatim>\<open>Access token required\<close>; a request whose token does not verify (invalid or
  expired) is answered 403 \<^verbatim>\<open>Invalid token\<close>. In both cases the store is unchanged
  and the answer is the same whatever the rest of the route is: the protected
  handler is not reached.
\<close>

theorem authenticateToken_rejects:
  "(falsy (header_token h) \<longrightarrow>
      authenticateToken e h next d = (d, json_error 401 ''Access token required'')) \<and>
   (\<not> falsy (header_token h) \<and> jwt_verify e (the (header_token h)) = None \<longrightarrow>
      authenticateToken e h next d = (d, json_error 403 ''Invalid token''))"
  by (simp add: authenticateToken_def)

theorem authenticateToken_rejects_witness:
  "falsy (header_token None) \<and>
   authenticateToken shop_env None (post_orders_handler shop_env no_failure) shop
     = (shop, json_error 401 ''Access token required'') \<and>
   \<not> falsy (header_token (Some ''Bearer forged'')) \<and>
   jwt_verify shop_env (the (header_token (Some ''Bearer forged''))) = None \<and>
   authenticateToken shop_env (Some ''Bearer forged'') (post_orders_handler shop_env no_failure) shop
     = (shop, json_error 403 ''Invalid token'')"
proof -
  have a: "falsy (header_token None)"
    by (simp add: falsy_def header_token_def)
  have b: "\<not> falsy (header_token (Some ''Bearer forged'')) \<and>
     jwt_verify shop_env (the (header_token (Some ''Bearer forged''))) = None"
    by (simp add: falsy_def header_token_def shop_env_def)
  from a b authenticateToken_rejects [of None shop_env "post_orders_handler shop_env no_failure" shop]
    authenticateToken_rejects [of "Some ''Bearer forged''" shop_env "post_orders_handler shop_env no_failure" shop]
  show ?thesis by blast
qed

text \<open>
  C7 as stated fails: a token that does not verify is answered 403, the status of
  the forbidden answers, not 401.
\<close>

theorem invalid_token_counterexample:
  "jwt_verify shop_env ''forged'' = None \<and>
   status (snd (post_orders shop_env no_failure (Some ''Bearer forged'') shop)) = 403 \<and>
   status (snd (post_orders shop_env no_failure (Some ''Bearer forged'') shop)) \<noteq> 401"
  by (simp add: post_orders_def authenticateToken_def header_token_def falsy_def
      json_error_def shop_env_def)

section \<open>Granting the administrator flag\<close>

lemma find_map_upd:
  "find (\<lambda>x. k x = i) xs = Some y \<Longrightarrow> (\<And>x. k (f x) = k x) \<Longrightarrow>
   find (\<lambda>x. k x = i) (map (\<lambda>x. if k x = i then f x else x) xs) = Some (f y)"
  by (induction xs) (auto split: if_splits)

text \<open>
  C9. Whoever holds a token that verifies, administrator or not and whether or not
  the payload names a stored user, makes any stored user an administrator:
  \<^verbatim>\<open>POST /admin/make-admin/:userId\<close> sets the flag of that user, changes nothing else
  and answers 200 with the updated user.
\<close>

theorem make_admin_any_token:
  assumes "authenticated e h caller"
    and "user_findUnique_id d userId = Some target"
  shows "post_admin_make_admin e h userId d =
           (d\<lparr>users := map (\<lambda>x. if u_id x = userId then x\<lparr>u_isAdmin := True\<rparr> else x) (users d)\<rparr>,
            json_ok (MadeAdminBody ''User made admin'' (target\<lparr>u_isAdmin := True\<rparr>)))
         \<and> user_findUnique_id (fst (post_admin_make_admin e h userId d)) userId
             = Some (target\<lparr>u_isAdmin := True\<rparr>)
         \<and> status (snd (post_admin_make_admin e h userId d)) = 200"
proof -
  have r: "post_admin_make_admin e h userId d =
           (d\<lparr>users := map (\<lambda>x. if u_id x = userId then x\<lparr>u_isAdmin := True\<rparr> else x) (users d)\<rparr>,
            json_ok (MadeAdminBody ''User made admin'' (target\<lparr>u_isAdmin := True\<rparr>)))"
    using assms
    by (simp add: post_admin_make_admin_def authenticateToken_ok make_admin_handler_def
        user_update_isAdmin_def)
  have f: "find (\<lambda>x. u_id x = userId)
             (map (\<lambda>x. if u_id x = userId then x\<lparr>u_isAdmin := True\<rparr> else x) (users d))
           = Some (target\<lparr>u_isAdmin := True\<rparr>)"
    using assms(2) by (intro find_map_upd) (simp_all add: user_findUnique_id_def)
  show ?thesis
    using f by (simp add: r user_findUnique_id_def json_ok_def)
qed

text \<open>Alice, who is not an administrator, makes herself one.\<close>

theorem make_admin_any_token_witness:
  "authenticated shop_env (Some ''Bearer jwt-u1'') alice \<and>
   user_findUnique_id shop ''u1'' = Some \<lparr>u_id = ''u1'', u_email = ''alice@example.com'',
      u_name = ''Alice'', u_password = ''hash-secret1'', u_isAdmin = False\<rparr> \<and>
   user_findUnique_id (fst (post_admin_make_admin shop_env (Some ''Bearer jwt-u1'') ''u1'' shop)) ''u1''
     = Some \<lparr>u_id = ''u1'', u_email = ''alice@example.com'',
      u_name = ''Alice'', u_password = ''hash-secret1'', u_isAdmin = True\<rparr> \<and>
   status (snd (post_admin_make_admin shop_env (Some ''Bearer jwt-u1'') ''u1'' shop)) = 200"
proof -
  have a: "authenticated shop_env (Some ''Bearer jwt-u1'') alice"
    by (simp add: authenticated_def falsy_def header_token_def shop_env_def)
  have t: "user_findUnique_id shop ''u1'' = Some \<lparr>u_id = ''u1'', u_email = ''alice@example.com'',
      u_name = ''Alice'', u_password = ''hash-secret1'', u_isAdmin = False\<rparr>"
    by (simp add: user_findUnique_id_def shop_def)
  from make_admin_any_token [OF a t, THEN conjunct2] a t show ?thesis by simp
qed

section \<open>Posting a message\<close>

text \<open>
  C10. Neither \<^verbatim>\<open>POST /messages\<close> nor the \<^verbatim>\<open>sendMessage\<close> event looks at a token:
  whatever the authorization header is (also when there is none), a message with
  the author and the content the caller names is stored, for every stored user
  named as author.
\<close>

theorem post_messages_no_token:
  assumes "user_findUnique_id d userId = Some author"
  shows "post_messages h \<lparr>mb_userId = userId, mb_content = content\<rparr> d =
           (d\<lparr>messages := messages d @
                [\<lparr>m_id = fresh_id (map m_id (messages d)), m_userId = userId, m_content = content\<rparr>]\<rparr>,
            json_ok (ChatBody \<lparr>m_id = fresh_id (map m_id (messages d)), m_userId = userId,
                               m_content = content\<rparr> author))
         \<and> fst (on_sendMessage \<lparr>sd_userId = userId, sd_content = content, sd_recipientId = r\<rparr> socks d) =
           d\<lparr>messages := messages d @
                [\<lparr>m_id = fresh_id (map m_id (messages d)), m_userId = userId, m_content = content\<rparr>]\<rparr>"
  using assms
  by (simp add: post_messages_def on_sendMessage_def message_create_def Let_def)

theorem post_messages_no_token_witness:
  "user_findUnique_id shop ''u2'' \<noteq> None \<and>
   messages (fst (post_messages None \<lparr>mb_userId = ''u2'', mb_content = ''hello''\<rparr> shop)) =
     [\<lparr>m_id = ''#'', m_userId = ''u2'', m_content = ''hello''\<rparr>] \<and>
   status (snd (post_messages None \<lparr>mb_userId = ''u2'', mb_content = ''hello''\<rparr> shop)) = 200 \<and>
   messages (fst (on_sendMessage \<lparr>sd_userId = ''u2'', sd_content = ''hello'', sd_recipientId = None\<rparr> [] shop)) =
     [\<lparr>m_id = ''#'', m_userId = ''u2'', m_content = ''hello''\<rparr>]"
proof -
  have t: "user_findUnique_id shop ''u2'' = Some \<lparr>u_id = ''u2'', u_email = ''bob@example.com'',
      u_name = ''Bob'', u_password = ''hash-secret2'', u_isAdmin = True\<rparr>"
    by (simp add: user_findUnique_id_def shop_def)
  have m: "messages shop = []" by (simp add: shop_def)
  from post_messages_no_token [OF t, of None "''hello''" None "[]"] t m
  show ?thesis by (simp add: json_ok_def fresh_id_def)
qed

section \<open>Removing a cart line\<close>

lemma filter_find_None: "find P xs = None \<Longrightarrow> filter (\<lambda>x. \<not> P x) xs = xs"
  by (induction xs) (auto split: if_splits)

lemma find_filter_not: "find P (filter (\<lambda>x. \<not> P x) xs) = None"
  by (induction xs) auto

text \<open>
  C5, as the code has it. For a request that passes the token check:
  when the user has a cart, \<^verbatim>\<open>DELETE /cart/:productId\<close> answers 200, removes the
  lines of that cart for the product and nothing else, so that no such line is
  left, and changes nothing when there was no such line; when the user has no cart
  it answers 404 \<^verbatim>\<open>Cart not found\<close> and changes nothing.
\<close>

theorem delete_cart_line:
  assumes "authenticated e h u"
  shows "(cart_findUnique d (pl_id u) = None \<longrightarrow>
            delete_cart e h productId d = (d, json_error 404 ''Cart not found'')) \<and>
         (\<forall>c. cart_findUnique d (pl_id u) = Some c \<longrightarrow>
            delete_cart e h productId d =
              (d\<lparr>cartItems := filter (\<lambda>i. \<not> (ci_cartId i = c_id c \<and> ci_productId i = productId))
                                (cartItems d)\<rparr>,
               json_ok (MessageBody ''Removed from cart'')) \<and>
            cartItem_findFirst (fst (delete_cart e h productId d)) (c_id c) productId = None \<and>
            (cartItem_findFirst d (c_id c) productId = None \<longrightarrow>
               fst (delete_cart e h productId d) = d))"
proof -
  have r: "delete_cart e h productId d = delete_cart_handler productId u d"
    using assms by (simp add: delete_cart_def authenticateToken_ok)
  have k1: "find (\<lambda>i. ci_cartId i = cid \<and> ci_productId i = productId)
              (filter (\<lambda>i. \<not> (ci_cartId i = cid \<and> ci_productId i = productId)) (cartItems d)) = None"
    for cid by (rule find_filter_not)
  have k2: "d\<lparr>cartItems := filter (\<lambda>i. \<not> (ci_cartId i = cid \<and> ci_productId i = productId))
                                (cartItems d)\<rparr> = d"
    if "find (\<lambda>i. ci_cartId i = cid \<and> ci_productId i = productId) (cartItems d) = None" for cid
    using filter_find_None [OF that] by simp
  show ?thesis
    unfolding r using k1 k2
    by (auto simp: delete_cart_handler_def cartItem_deleteMany_def cartItem_findFirst_def)
qed

theorem delete_cart_line_witness:
  "authenticated shop_env (Some ''Bearer jwt-u1'') alice \<and>
   cart_findUnique shop (pl_id alice) = Some \<lparr>c_id = ''c1'', c_userId = ''u1''\<rparr> \<and>
   cartItems (fst (delete_cart shop_env (Some ''Bearer jwt-u1'') ''p1'' shop)) =
     [\<lparr>ci_id = ''i2'', ci_cartId = ''c1'', ci_productId = ''p2'', ci_quantity = 1\<rparr>] \<and>
   cartItem_findFirst shop ''c1'' ''p7'' = None \<and>
   fst (delete_cart shop_env (Some ''Bearer jwt-u1'') ''p7'' shop) = shop \<and>
   snd (delete_cart shop_env (Some ''Bearer jwt-u1'') ''p7'' shop) =
     json_ok (MessageBody ''Removed from cart'') \<and>
   authenticated shop_env (Some ''Bearer jwt-u2'') bob \<and>
   cart_findUnique shop (pl_id bob) = None \<and>
   delete_cart shop_env (Some ''Bearer jwt-u2'') ''p1'' shop = (shop, json_error 404 ''Cart not found'')"
proof -
  have a: "authenticated shop_env (Some ''Bearer jwt-u1'') alice"
    by (simp add: authenticated_def falsy_def header_token_def shop_env_def)
  have b: "authenticated shop_env (Some ''Bearer jwt-u2'') bob"
    by (simp add: authenticated_def falsy_def header_token_def shop_env_def)
  have c: "cart_findUnique shop (pl_id alice) = Some \<lparr>c_id = ''c1'', c_userId = ''u1''\<rparr>"
    by (simp add: cart_findUnique_def shop_def alice_def)
  have n: "cart_findUnique shop (pl_id bob) = None"
    by (simp add: cart_findUnique_def shop_def bob_def)
  have f: "cartItem_findFirst shop ''c1'' ''p7'' = None"
    by (simp add: cartItem_findFirst_def shop_def)
  note A = delete_cart_line [OF a, of shop]
  note B = delete_cart_line [OF b, of shop "''p1''"]
  from A [of "''p1''"] c
  have 1: "cartItems (fst (delete_cart shop_env (Some ''Bearer jwt-u1'') ''p1'' shop)) =
     [\<lparr>ci_id = ''i2'', ci_cartId = ''c1'', ci_productId = ''p2'', ci_quantity = 1\<rparr>]"
    by (simp add: shop_def)
  from A [of "''p7''"] c f
  have 2: "fst (delete_cart shop_env (Some ''Bearer jwt-u1'') ''p7'' shop) = shop \<and>
      snd (delete_cart shop_env (Some ''Bearer jwt-u1'') ''p7'' shop) =
        json_ok (MessageBody ''Removed from cart'')"
    by (simp add: shop_def)
  from B n
  have 3: "delete_cart shop_env (Some ''Bearer jwt-u2'') ''p1'' shop = (shop, json_error 404 ''Cart not found'')"
    by simp
  from a b c n f 1 2 3 show ?thesis by blast
qed

text \<open>
  C5 as stated fails for a user without a cart: Bob's request does not succeed, it is
  answered 404.
\<close>

theorem delete_without_cart_counterexample:
  "jwt_verify shop_env ''jwt-u2'' = Some bob \<and>
   cart_findUnique shop (pl_id bob) = None \<and>
   status (snd (delete_cart shop_env (Some ''Bearer jwt-u2'') ''p1'' shop)) = 404 \<and>
   status (snd (delete_cart shop_env (Some ''Bearer jwt-u2'') ''p1'' shop)) \<noteq> 200"
  by (simp add: delete_cart_def delete_cart_handler_def authenticateToken_def header_token_def
      falsy_def json_error_def shop_env_def cart_findUnique_def shop_def bob_def)

section \<open>Orders and later product updates\<close>

text \<open>
  C4. \<^verbatim>\<open>PUT /admin/products/:id\<close> never changes the orders or their items, whatever
  the request is and however it ends: the totals and the item prices recorded when
  an order was created stay as they are. (When the request is an administrator's,
  the body is valid and the product exists, the product itself does change: its
  price becomes the one of the body.)
\<close>

theorem product_update_keeps_orders:
  "orders (fst (put_admin_products e h i b d)) = orders d \<and>
   orderItems (fst (put_admin_products e h i b d)) = orderItems d \<and>
   (\<forall>u usr p. authenticated e h u \<and> user_findUnique_id d (pl_id u) = Some usr \<and> u_isAdmin usr \<and>
       productSchema b = [] \<and> product_findUnique d i = Some p \<longrightarrow>
       product_findUnique (fst (put_admin_products e h i b d)) i = Some (apply_product_body b p) \<and>
       p_price (apply_product_body b p) = pb_price b \<and>
       status (snd (put_admin_products e h i b d)) = 200)"
proof -
  have frame: "orders (fst (put_admin_products_handler i b x)) = orders x \<and>
               orderItems (fst (put_admin_products_handler i b x)) = orderItems x" for x
    by (simp add: put_admin_products_handler_def product_update_def
        split: option.splits)
  have 1: "orders (fst (put_admin_products e h i b d)) = orders d \<and>
           orderItems (fst (put_admin_products e h i b d)) = orderItems d"
    using frame [of d]
    by (simp add: put_admin_products_def authenticateToken_def requireAdmin_def Let_def
        split: option.splits)
  have 2: "product_findUnique (fst (put_admin_products e h i b d)) i = Some (apply_product_body b p) \<and>
       p_price (apply_product_body b p) = pb_price b \<and>
       status (snd (put_admin_products e h i b d)) = 200"
    if "authenticated e h u" "user_findUnique_id d (pl_id u) = Some usr" "u_isAdmin usr"
       "productSchema b = []" "product_findUnique d i = Some p" for u usr p
  proof -
    have f: "find (\<lambda>x. p_id x = i)
             (map (\<lambda>x. if p_id x = i then apply_product_body b x else x) (products d))
           = Some (apply_product_body b p)"
      using that(5) by (intro find_map_upd) (simp_all add: product_findUnique_def apply_product_body_def)
    show ?thesis using that f
      by (simp add: put_admin_products_def authenticateToken_ok requireAdmin_def
          put_admin_products_handler_def product_update_def product_findUnique_def json_ok_def
          apply_product_body_def)
  qed
  from 1 2 show ?thesis by blast
qed

text \<open>
  After Alice's order, Bob raises the widget's price from 10 to 99: the order still
  records 10 and 5, and the total 25.
\<close>

theorem product_update_keeps_orders_witness:
  "authenticated shop_env (Some ''Bearer jwt-u2'') bob \<and>
   product_findUnique shop_ordered ''p1'' =
     Some \<lparr>p_id = ''p1'', p_name = ''Widget'', p_description = None, p_price = 10, p_stock = 7\<rparr> \<and>
   product_findUnique
     (fst (put_admin_products shop_env (Some ''Bearer jwt-u2'') ''p1''
        \<lparr>pb_name = ''Widget'', pb_description = None, pb_price = 99, pb_stock = 7\<rparr> shop_ordered)) ''p1'' =
     Some \<lparr>p_id = ''p1'', p_name = ''Widget'', p_description = None, p_price = 99, p_stock = 7\<rparr> \<and>
   orders
     (fst (put_admin_products shop_env (Some ''Bearer jwt-u2'') ''p1''
        \<lparr>pb_name = ''Widget'', pb_description = None, pb_price = 99, pb_stock = 7\<rparr> shop_ordered)) =
     [\<lparr>o_id = ''#'', o_userId = ''u1'', o_total = 25, o_status = ''pending''\<rparr>] \<and>
   map oi_price (orderItems
     (fst (put_admin_products shop_env (Some ''Bearer jwt-u2'') ''p1''
        \<lparr>pb_name = ''Widget'', pb_description = None, pb_price = 99, pb_stock = 7\<rparr> shop_ordered))) =
     [10, 5]"
proof -
  let ?b = "\<lparr>pb_name = ''Widget'', pb_description = None, pb_price = 99, pb_stock = 7\<rparr>"
  have a: "authenticated shop_env (Some ''Bearer jwt-u2'') bob"
    by (simp add: authenticated_def falsy_def header_token_def shop_env_def)
  have u: "user_findUnique_id shop_ordered (pl_id bob) = Some \<lparr>u_id = ''u2'', u_email = ''bob@example.com'',
      u_name = ''Bob'', u_password = ''hash-secret2'', u_isAdmin = True\<rparr>"
    by (simp add: user_findUnique_id_def shop_ordered_def shop_def bob_def)
  have s: "productSchema ?b = []"
    by (simp add: productSchema_def)
  have p: "product_findUnique shop_ordered ''p1'' =
     Some \<lparr>p_id = ''p1'', p_name = ''Widget'', p_description = None, p_price = 10, p_stock = 7\<rparr>"
    by (simp add: product_findUnique_def shop_ordered_def shop_def)
  note T = product_update_keeps_orders [of shop_env "Some ''Bearer jwt-u2''" "''p1''" ?b shop_ordered]
  from T have o: "orders (fst (put_admin_products shop_env (Some ''Bearer jwt-u2'') ''p1'' ?b shop_ordered))
       = orders shop_ordered"
    and i: "orderItems (fst (put_admin_products shop_env (Some ''Bearer jwt-u2'') ''p1'' ?b shop_ordered))
       = orderItems shop_ordered"
    by blast+
  from T a u s p
  have n: "product_findUnique
     (fst (put_admin_products shop_env (Some ''Bearer jwt-u2'') ''p1'' ?b shop_ordered)) ''p1'' =
     Some (apply_product_body ?b
        \<lparr>p_id = ''p1'', p_name = ''Widget'', p_description = None, p_price = 10, p_stock = 7\<rparr>)"
    by (metis user.select_convs(5))
  have n': "product_findUnique
     (fst (put_admin_products shop_env (Some ''Bearer jwt-u2'') ''p1'' ?b shop_ordered)) ''p1'' =
     Some \<lparr>p_id = ''p1'', p_name = ''Widget'', p_description = None, p_price = 99, p_stock = 7\<rparr>"
    using n by (simp add: apply_product_body_def)
  have o': "orders (fst (put_admin_products shop_env (Some ''Bearer jwt-u2'') ''p1'' ?b shop_ordered)) =
     [\<lparr>o_id = ''#'', o_userId = ''u1'', o_total = 25, o_status = ''pending''\<rparr>]"
    using o by (simp add: shop_ordered_def)
  have i': "map oi_price (orderItems
     (fst (put_admin_products shop_env (Some ''Bearer jwt-u2'') ''p1'' ?b shop_ordered))) = [10, 5]"
    using i by (simp add: shop_ordered_def)
  from a p n' o' i' show ?thesis by blast
qed

section \<open>Registration\<close>

text \<open>
  A token signed by the server passes the token check when sent back as
  \<^verbatim>\<open>Bearer <token>\<close>, for a library whose \<open>verify\<close> accepts what its \<open>sign\<close> made.
\<close>

lemma signed_token_authenticates:
  assumes "jwt_verify e (jwt_sign e p) = Some p"
    and "jwt_sign e p \<noteq> []" and "CHR '' '' \<notin> set (jwt_sign e p)"
  shows "authenticated e (Some (''Bearer '' @ jwt_sign e p)) p"
  using assms header_token_bearer [of "jwt_sign e p"]
  by (simp add: authenticated_def falsy_def)

text \<open>
  C3, as the code has it. A request whose e-mail address belongs to a stored user
  fails and stores nothing: with 400 when the body is not well formed, and otherwise,
  when the store rejects the insert, with the generic 500 \<^verbatim>\<open>Failed to register\<close>. A
  request with a new address, a well-formed address, a non-empty name and a password
  of six characters or more succeeds: the user is stored with the hash of the
  password and without the administrator flag, and the answer is 200 with the
  public fields (id, email, name) and a token signed for the id and the address.
\<close>

theorem register_outcome:
  "(rb_email b \<in> set (map u_email (users d)) \<longrightarrow>
      fst (post_auth_register e b d) = d \<and>
      snd (post_auth_register e b d) =
        (if registerSchema e b = [] then json_error 500 ''Failed to register''
         else invalid_input (registerSchema e b))) \<and>
   (rb_email b \<notin> set (map u_email (users d)) \<and> z_email e (rb_email b) \<and>
    1 \<le> length (rb_name b) \<and> 6 \<le> length (rb_password b) \<longrightarrow>
      post_auth_register e b d =
        (d\<lparr>users := users d @
             [\<lparr>u_id = fresh_id (map u_id (users d)), u_email = rb_email b, u_name = rb_name b,
               u_password = bcrypt_hash e (rb_password b), u_isAdmin = False\<rparr>]\<rparr>,
         json_ok (AuthBody \<lparr>pu_id = fresh_id (map u_id (users d)), pu_email = rb_email b,
                            pu_name = rb_name b\<rparr>
                    (jwt_sign e \<lparr>pl_id = fresh_id (map u_id (users d)), pl_email = rb_email b\<rparr>))))"
  by (simp add: post_auth_register_def user_create_def registerSchema_def Let_def)

theorem register_outcome_witness:
  "rb_email \<lparr>rb_email = ''alice@example.com'', rb_name = ''Al'', rb_password = ''abcdef''\<rparr>
     \<in> set (map u_email (users shop)) \<and>
   post_auth_register shop_env
     \<lparr>rb_email = ''alice@example.com'', rb_name = ''Al'', rb_password = ''abcdef''\<rparr> shop =
     (shop, json_error 500 ''Failed to register'') \<and>
   rb_email \<lparr>rb_email = ''dave@example.com'', rb_name = ''Dave'', rb_password = ''abcdef''\<rparr>
     \<notin> set (map u_email (users shop)) \<and>
   snd (post_auth_register shop_env
     \<lparr>rb_email = ''dave@example.com'', rb_name = ''Dave'', rb_password = ''abcdef''\<rparr> shop) =
     json_ok (AuthBody \<lparr>pu_id = ''###'', pu_email = ''dave@example.com'', pu_name = ''Dave''\<rparr> ''jwt-###'')"
proof -
  let ?a = "\<lparr>rb_email = ''alice@example.com'', rb_name = ''Al'', rb_password = ''abcdef''\<rparr>"
  let ?b = "\<lparr>rb_email = ''dave@example.com'', rb_name = ''Dave'', rb_password = ''abcdef''\<rparr>"
  have 1: "rb_email ?a \<in> set (map u_email (users shop))"
    by (simp add: shop_def)
  have 2: "registerSchema shop_env ?a = []"
    by (simp add: registerSchema_def shop_env_def)
  have 3: "rb_email ?b \<notin> set (map u_email (users shop)) \<and> z_email shop_env (rb_email ?b) \<and>
    1 \<le> length (rb_name ?b) \<and> 6 \<le> length (rb_password ?b)"
    by (simp add: shop_def shop_env_def)
  have 4: "fresh_id (map u_id (users shop)) = ''###''"
    by (simp add: fresh_id_def shop_def)
  from register_outcome [of ?a shop shop_env] 1 2
  have 5: "post_auth_register shop_env ?a shop = (shop, json_error 500 ''Failed to register'')"
    by (simp add: prod_eq_iff)
  from register_outcome [of ?b shop shop_env] 3
  have 6: "snd (post_auth_register shop_env ?b shop) =
     json_ok (AuthBody \<lparr>pu_id = ''###'', pu_email = ''dave@example.com'', pu_name = ''Dave''\<rparr> ''jwt-###'')"
    by (simp add: 4 shop_env_def)
  from 1 3 5 6 show ?thesis by blast
qed

text \<open>
  C3 as stated fails: registering Alice's address again is answered 500, not with a
  conflict (409).
\<close>

theorem duplicate_email_counterexample:
  "''alice@example.com'' \<in> set (map u_email (users shop)) \<and>
   status (snd (post_auth_register shop_env
     \<lparr>rb_email = ''alice@example.com'', rb_name = ''Al'', rb_password = ''abcdef''\<rparr> shop)) = 500 \<and>
   status (snd (post_auth_register shop_env
     \<lparr>rb_email = ''alice@example.com'', rb_name = ''Al'', rb_password = ''abcdef''\<rparr> shop)) \<noteq> 409"
  by (simp add: post_auth_register_def user_create_def registerSchema_def shop_def shop_env_def
      json_error_def)

section \<open>Creating an order, step by step\<close>

text \<open>
  C1, as the code has it. \<^verbatim>\<open>POST /orders\<close> is two writes, not one unit: the order
  with its items, then the clearing of the cart. Whatever store calls fail, the run
  ends in one of three ways: nothing has changed and the answer is not 200; the order
  and its items are stored, the lines of the cart are gone and the answer is 200; or
  the clearing call has failed, the order and its items are stored, the cart is as
  it was and the answer is 500. The cart is never cleared without the order stored.
\<close>

theorem create_order_steps:
  "fst (post_orders_handler e fails u d) = d \<and> status (snd (post_orders_handler e fails u d)) \<noteq> 200
   \<or> (\<exists>c ord its.
        cart_findUnique d (pl_id u) = Some c \<and>
        orders (fst (post_orders_handler e fails u d)) = orders d @ [ord] \<and>
        orderItems (fst (post_orders_handler e fails u d)) = orderItems d @ its \<and>
        cartItems (fst (post_orders_handler e fails u d)) =
          filter (\<lambda>i. ci_cartId i \<noteq> c_id c) (cartItems d) \<and>
        status (snd (post_orders_handler e fails u d)) = 200)
   \<or> (\<exists>ord its.
        fails ClearCart \<and>
        orders (fst (post_orders_handler e fails u d)) = orders d @ [ord] \<and>
        orderItems (fst (post_orders_handler e fails u d)) = orderItems d @ its \<and>
        cartItems (fst (post_orders_handler e fails u d)) = cartItems d \<and>
        status (snd (post_orders_handler e fails u d)) = 500)"
  by (auto simp: post_orders_handler_def order_create_def cart_findUnique_items_def
      cartItem_deleteMany_def json_error_def json_ok_def Let_def
      split: sum.splits option.splits if_splits prod.splits)

text \<open>
  C1 as stated fails: when the clearing call is rejected, Alice's order is stored
  and her cart still has its two lines.
\<close>

theorem order_without_cleared_cart_counterexample:
  "orders (fst (post_orders shop_env (\<lambda>c. c = ClearCart) (Some ''Bearer jwt-u1'') shop)) =
     [\<lparr>o_id = ''#'', o_userId = ''u1'', o_total = 25, o_status = ''pending''\<rparr>] \<and>
   cartItems (fst (post_orders shop_env (\<lambda>c. c = ClearCart) (Some ''Bearer jwt-u1'') shop)) =
     [\<lparr>ci_id = ''i1'', ci_cartId = ''c1'', ci_productId = ''p1'', ci_quantity = 2\<rparr>,
      \<lparr>ci_id = ''i2'', ci_cartId = ''c1'', ci_productId = ''p2'', ci_quantity = 1\<rparr>] \<and>
   status (snd (post_orders shop_env (\<lambda>c. c = ClearCart) (Some ''Bearer jwt-u1'') shop)) = 500"
  by (simp add: post_orders_def authenticateToken_def header_token_def falsy_def shop_env_def
      alice_def post_orders_handler_def cart_findUnique_items_def cart_findUnique_def
      cart_items_def include_product_def product_findUnique_def shop_def
      cart_total_def order_lines_def order_create_def include_order_product_def
      fresh_id_def json_error_def Let_def num_of_int_def round64_small)

theorem create_order_steps_witness:
  "\<exists>ord its.
     orders (fst (post_orders_handler shop_env (\<lambda>c. c = ClearCart) alice shop)) = orders shop @ [ord] \<and>
     orderItems (fst (post_orders_handler shop_env (\<lambda>c. c = ClearCart) alice shop)) = orderItems shop @ its \<and>
     cartItems (fst (post_orders_handler shop_env (\<lambda>c. c = ClearCart) alice shop)) = cartItems shop \<and>
     status (snd (post_orders_handler shop_env (\<lambda>c. c = ClearCart) alice shop)) = 500"
proof -
  have s: "status (snd (post_orders_handler shop_env (\<lambda>c. c = ClearCart) alice shop)) = 500"
    by (simp add: alice_def shop_env_def post_orders_handler_def cart_findUnique_items_def cart_findUnique_def
      cart_items_def include_product_def product_findUnique_def shop_def
      cart_total_def order_lines_def order_create_def include_order_product_def
      fresh_id_def json_error_def Let_def num_of_int_def round64_small)
  have o: "orders (fst (post_orders_handler shop_env (\<lambda>c. c = ClearCart) alice shop)) \<noteq> orders shop"
    by (simp add: alice_def shop_env_def post_orders_handler_def cart_findUnique_items_def cart_findUnique_def
      cart_items_def include_product_def product_findUnique_def shop_def
      cart_total_def order_lines_def order_create_def include_order_product_def
      fresh_id_def json_error_def Let_def num_of_int_def round64_small)
  from o have n: "fst (post_orders_handler shop_env (\<lambda>c. c = ClearCart) alice shop) \<noteq> shop"
    by auto
  from create_order_steps [of shop_env "\<lambda>c. c = ClearCart" alice shop] s n
  show ?thesis by auto
qed

section \<open>Creating an order\<close>

lemma find_member_Some:
  "k \<in> set (map f xs) \<Longrightarrow> \<exists>x. find (\<lambda>x. f x = k) xs = Some x \<and> f x = k \<and> x \<in> set xs"
  by (induction xs) auto

text \<open>The join of cart lines with their products succeeds when the products exist.\<close>

lemma those_include_product:
  assumes "list_all (\<lambda>i. ci_productId i \<in> set (map p_id (products d))) ls"
  shows "\<exists>its. those (map (include_product d) ls) = Some its \<and> map fst its = ls \<and>
           list_all (\<lambda>(i, p). product_findUnique d (ci_productId i) = Some p) its"
  using assms
proof (induction ls)
  case Nil
  then show ?case by simp
next
  case (Cons i ls)
  then obtain its where its: "those (map (include_product d) ls) = Some its" "map fst its = ls"
    "list_all (\<lambda>(i, p). product_findUnique d (ci_productId i) = Some p) its"
    by auto
  from Cons.prems obtain p where p: "product_findUnique d (ci_productId i) = Some p"
    using find_member_Some [of "ci_productId i" p_id "products d"]
    by (auto simp: product_findUnique_def)
  then have "include_product d i = Some (i, p)"
    by (simp add: include_product_def)
  with its p show ?case
    by simp
qed

text \<open>The reduction over the joined lines is the sum over the lines, term by term.\<close>

lemma cart_total_joined:
  assumes "list_all (\<lambda>(i, p). product_findUnique d (ci_productId i) = Some p) its"
  shows "cart_total e its =
         foldl (\<lambda>sum i. num_add e sum (num_mul e (Finite (line_price d i)) (num_of_int (ci_quantity i))))
           (Finite 0) (map fst its)"
proof -
  have "foldl (\<lambda>sum (item, prod). num_add e sum (num_mul e (Finite (p_price prod)) (num_of_int (ci_quantity item))))
          a its =
        foldl (\<lambda>sum i. num_add e sum (num_mul e (Finite (line_price d i)) (num_of_int (ci_quantity i))))
          a (map fst its)" for a
    using assms by (induction its arbitrary: a) (auto simp: line_price_def)
  then show ?thesis by (simp add: cart_total_def)
qed

text \<open>
  With doubles the sum is not the exact one: for one line of three items at the price
  0.1 the server computes 0.30000000000000004, which is not three times the price.
\<close>

lemma cart_total_tenths:
  "cart_total shop_env
     [(\<lparr>ci_id = ''i'', ci_cartId = ''c'', ci_productId = ''p'', ci_quantity = 3\<rparr>,
       \<lparr>p_id = ''p'', p_name = ''Tenth'', p_description = None,
        p_price = 3602879701896397 / 36028797018963968, p_stock = 1\<rparr>)] =
     Finite (5404319552844596 / 18014398509481984) \<and>
   (5404319552844596 / 18014398509481984 :: rat) \<noteq> 3602879701896397 / 36028797018963968 * 3"
proof -
  have "round64 (5404319552844596 / 18014398509481984) = Finite (5404319552844596 / 18014398509481984)"
    by code_simp
  then show ?thesis
    by (simp add: cart_total_def shop_env_def round64_tenth(2))
qed







lemma wf_db_cart:
  assumes "wf_db d" and "cart_findUnique d uid = Some c"
  shows "uid \<in> set (map u_id (users d))"
    and "list_all (\<lambda>i. ci_productId i \<in> set (map p_id (products d))) (cart_items d (c_id c))"
proof -
  from assms(2) have "c \<in> set (carts d)" "c_userId c = uid"
    by (auto simp: cart_findUnique_def find_Some_iff)
  with assms(1) show "uid \<in> set (map u_id (users d))"
    by (auto simp: wf_db_def list_all_iff)
  from assms(1) show "list_all (\<lambda>i. ci_productId i \<in> set (map p_id (products d))) (cart_items d (c_id c))"
    by (auto simp: wf_db_def list_all_iff cart_items_def)
qed



text \<open>The example of the spec, run: the cart of 25 becomes the order of 25.\<close>

lemma order_example:
  "fst (post_orders shop_env no_failure (Some ''Bearer jwt-u1'') shop) = shop_ordered"
  by (simp add: post_orders_def authenticateToken_def header_token_def falsy_def shop_env_def
      alice_def post_orders_handler_def no_failure_def cart_findUnique_items_def cart_findUnique_def
      cart_items_def include_product_def product_findUnique_def shop_def shop_ordered_def
      cart_total_def order_lines_def order_create_def include_order_product_def
      cartItem_deleteMany_def fresh_id_def Let_def num_of_int_def round64_small)

section \<open>The relay\<close>

lemma fresh_id_bound: "s \<in> set used \<Longrightarrow> length s \<le> foldr (\<lambda>s m. max (length s) m) used 0"
  by (induction used) auto

lemma fresh_id_notin: "fresh_id used \<notin> set used"
proof
  assume "fresh_id used \<in> set used"
  from fresh_id_bound [OF this] show False
    by (simp add: fresh_id_def)
qed

lemma distinct_io_step:
  "distinct (map s_id socks) \<Longrightarrow> distinct (map s_id (io_step socks ev))"
proof (cases ev)
  case Connection
  assume "distinct (map s_id socks)"
  with fresh_id_notin [of "map s_id socks"] Connection show ?thesis
    by (simp add: io_connection_def Let_def)
next
  case (Join sid userId)
  have "map s_id (on_join sid userId socks) = map s_id socks"
    by (induction socks) (simp_all add: on_join_def)
  moreover assume "distinct (map s_id socks)"
  ultimately show ?thesis using Join by simp
next
  case (Disconnect sid)
  assume "distinct (map s_id socks)"
  then show ?thesis using Disconnect
    by (simp add: on_disconnect_def distinct_map_filter)
qed

text \<open>Connected sockets have distinct identifiers, whatever happened before.\<close>

lemma distinct_io_run: "distinct (map s_id (io_run evs))"
proof -
  have "distinct (map s_id socks) \<Longrightarrow> distinct (map s_id (foldl io_step socks evs))" for socks
    by (induction evs arbitrary: socks) (simp_all add: distinct_io_step)
  from this [of "[]"] show ?thesis
    by (simp add: io_run_def)
qed

lemma count_list_map_filter:
  "distinct (map f xs) \<Longrightarrow> x \<in> set xs \<Longrightarrow>
   count_list (map f (filter P xs)) (f x) = (if P x then 1 else 0)"
proof (induction xs)
  case Nil
  then show ?case by simp
next
  case (Cons y ys)
  show ?case
  proof (cases "x = y")
    case True
    have "f y \<notin> set (map f (filter P ys))"
      using Cons.prems(1) by auto
    then have "count_list (map f (filter P ys)) (f y) = 0"
      by (simp add: count_list_0_iff)
    then show ?thesis using True by simp
  next
    case False
    with Cons.prems have "x \<in> set ys" "f y \<noteq> f x" by auto
    with Cons show ?thesis by simp
  qed
qed

lemma sendMessage_not_stored:
  "message_create d (sd_userId dat) (sd_content dat) = Inl err \<Longrightarrow>
   on_sendMessage dat socks d = (d, [])"
  by (simp add: on_sendMessage_def)

text \<open>
  C8. Once \<^verbatim>\<open>message.create\<close> has succeeded, the \<^verbatim>\<open>sendMessage\<close> handler sends the
  stored message (with its author) and nothing else, only to connected sockets, and
  to each connected socket exactly once when it is in the audience and not at all
  otherwise. The audience is every connected socket when no recipient is given
  (\<^verbatim>\<open>recipientId\<close> absent or the empty string, which JavaScript takes for absent),
  and the sockets in the room named by \<^verbatim>\<open>recipientId\<close> when one is given.
\<close>

theorem sendMessage_delivery:
  assumes "message_create d (sd_userId dat) (sd_content dat) = Inr (d', m, usr)"
    and "distinct (map s_id socks)"
  shows "fst (on_sendMessage dat socks d) = d' \<and>
         list_all (\<lambda>ev. snd ev = (m, usr)) (snd (on_sendMessage dat socks d)) \<and>
         set (map fst (snd (on_sendMessage dat socks d))) \<subseteq> set (map s_id socks) \<and>
         (\<forall>s\<in>set socks.
            count_list (map fst (snd (on_sendMessage dat socks d))) (s_id s) =
              (if falsy (sd_recipientId dat) then 1
               else if the (sd_recipientId dat) \<in> set (s_rooms s) then 1 else 0))"
proof (cases "falsy (sd_recipientId dat)")
  case True
  then have r: "on_sendMessage dat socks d = (d', io_emit socks (m, usr))"
    using assms(1) by (simp add: on_sendMessage_def)
  have "count_list (map s_id (filter (\<lambda>s. True) socks)) (s_id s) = 1" if "s \<in> set socks" for s
    using count_list_map_filter [OF assms(2) that, of "\<lambda>s. True"] by simp
  then show ?thesis
    using True by (simp add: r io_emit_def list_all_iff comp_def)
next
  case False
  then have r: "on_sendMessage dat socks d =
      (d', io_to_emit (the (sd_recipientId dat)) socks (m, usr))"
    using assms(1) by (simp add: on_sendMessage_def)
  have "count_list (map s_id (filter (\<lambda>s. the (sd_recipientId dat) \<in> set (s_rooms s)) socks)) (s_id s) =
          (if the (sd_recipientId dat) \<in> set (s_rooms s) then 1 else 0)" if "s \<in> set socks" for s
    using count_list_map_filter [OF assms(2) that] by simp
  then show ?thesis
    using False by (auto simp: r io_to_emit_def list_all_iff comp_def)
qed

lemma two_sessions_eq:
  "two_sessions = [\<lparr>s_id = ''#'', s_rooms = [''u1'', ''#'']\<rparr>, \<lparr>s_id = ''##'', s_rooms = [''u2'', ''##'']\<rparr>]"
  by (simp add: two_sessions_def io_run_def io_connection_def on_join_def fresh_id_def Let_def)

theorem sendMessage_delivery_witness:
  "distinct (map s_id two_sessions) \<and>
   map fst (snd (on_sendMessage
      \<lparr>sd_userId = ''u1'', sd_content = ''hi all'', sd_recipientId = None\<rparr> two_sessions shop)) =
     [''#'', ''##''] \<and>
   map fst (snd (on_sendMessage
      \<lparr>sd_userId = ''u1'', sd_content = ''hi Bob'', sd_recipientId = Some ''u2''\<rparr> two_sessions shop)) =
     [''##''] \<and>
   count_list (map fst (snd (on_sendMessage
      \<lparr>sd_userId = ''u1'', sd_content = ''hi Bob'', sd_recipientId = Some ''u2''\<rparr> two_sessions shop))) ''##'' = 1 \<and>
   count_list (map fst (snd (on_sendMessage
      \<lparr>sd_userId = ''u1'', sd_content = ''hi Bob'', sd_recipientId = Some ''u2''\<rparr> two_sessions shop))) ''#'' = 0"
proof -
  let ?m = "\<lparr>m_id = ''#'', m_userId = ''u1'', m_content = ''hi Bob''\<rparr>"
  let ?u = "\<lparr>u_id = ''u1'', u_email = ''alice@example.com'', u_name = ''Alice'',
          u_password = ''hash-secret1'', u_isAdmin = False\<rparr>"
  let ?dat = "\<lparr>sd_userId = ''u1'', sd_content = ''hi Bob'', sd_recipientId = Some ''u2''\<rparr>"
  have c: "message_create shop (sd_userId ?dat) (sd_content ?dat) =
      Inr (shop\<lparr>messages := [?m]\<rparr>, ?m, ?u)"
    by (simp add: message_create_def user_findUnique_id_def shop_def fresh_id_def Let_def)
  have d: "distinct (map s_id two_sessions)"
    by (simp add: two_sessions_eq)
  have s1: "\<lparr>s_id = ''#'', s_rooms = [''u1'', ''#'']\<rparr> \<in> set two_sessions"
    and s2: "\<lparr>s_id = ''##'', s_rooms = [''u2'', ''##'']\<rparr> \<in> set two_sessions"
    by (simp_all add: two_sessions_eq)
  note T = sendMessage_delivery [OF c d, THEN conjunct2, THEN conjunct2, THEN conjunct2, rule_format]
  from T [OF s1] have 1: "count_list (map fst (snd (on_sendMessage ?dat two_sessions shop))) ''#'' = 0"
    by (simp add: falsy_def)
  from T [OF s2] have 2: "count_list (map fst (snd (on_sendMessage ?dat two_sessions shop))) ''##'' = 1"
    by (simp add: falsy_def)
  have 3: "map fst (snd (on_sendMessage
      \<lparr>sd_userId = ''u1'', sd_content = ''hi all'', sd_recipientId = None\<rparr> two_sessions shop)) =
     [''#'', ''##'']"
    by (simp add: on_sendMessage_def message_create_def user_findUnique_id_def shop_def falsy_def
        io_emit_def two_sessions_eq Let_def)
  have 4: "map fst (snd (on_sendMessage ?dat two_sessions shop)) = [''##'']"
    by (simp add: on_sendMessage_def message_create_def user_findUnique_id_def shop_def falsy_def
        io_to_emit_def two_sessions_eq Let_def)
  from d 1 2 3 4 show ?thesis by blast
qed

section \<open>The cart\<close>

subsection \<open>The store's references stay valid\<close>

lemma wf_cart_create:
  assumes "wf_db d" and "cart_create d uid = Inr (d', c)"
  shows "wf_db d'"
  using assms
  by (auto simp: cart_create_def wf_db_def list_all_iff Let_def split: if_splits)

lemma wf_cartItem_update:
  assumes "wf_db d" and "cartItem_update d i q = Inr d'"
  shows "wf_db d'"
proof -
  have h: "ci_id \<circ> (\<lambda>x. if ci_id x = j then x\<lparr>ci_quantity := q\<rparr> else x) = ci_id" for j
    by (auto simp: fun_eq_iff)
  from assms show ?thesis
    by (auto simp: h cartItem_update_def wf_db_def list_all_iff split: if_splits)
qed

lemma wf_cartItem_create:
  assumes "wf_db d" and "cartItem_create d cid pid q = Inr d'"
  shows "wf_db d'"
  using assms fresh_id_notin [of "map ci_id (cartItems d)"]
  by (auto simp: cartItem_create_def wf_db_def list_all_iff split: if_splits)

lemma wf_cartItem_deleteMany:
  assumes "wf_db d"
  shows "wf_db (cartItem_deleteMany d wh)"
  using assms
  by (auto simp: cartItem_deleteMany_def wf_db_def list_all_iff distinct_map_filter)

lemma add_line_cases:
  "fst (add_line c b d) = d \<or>
   (\<exists>i q. cartItem_update d i q = Inr (fst (add_line c b d))) \<or>
   (\<exists>q. cartItem_create d (c_id c) (cb_productId b) q = Inr (fst (add_line c b d)))"
proof (cases "cartItem_findFirst d (c_id c) (cb_productId b)")
  case None
  then show ?thesis
    by (cases "cartItem_create d (c_id c) (cb_productId b) (cb_quantity b)")
       (auto simp: add_line_def)
next
  case (Some ex)
  then show ?thesis
    by (cases "cartItem_update d (ci_id ex) (ci_quantity ex + cb_quantity b)")
       (auto simp: add_line_def)
qed

lemma wf_add_line:
  assumes "wf_db d"
  shows "wf_db (fst (add_line c b d))"
  using add_line_cases [of c b d] assms wf_cartItem_update wf_cartItem_create
  by metis

lemma post_cart_handler_cases:
  "fst (post_cart_handler b u d) = d \<or>
   (\<exists>c. fst (post_cart_handler b u d) = fst (add_line c b d)) \<or>
   (\<exists>d1 c. cart_create d (pl_id u) = Inr (d1, c) \<and>
      fst (post_cart_handler b u d) = fst (add_line c b d1))"
proof (cases "cartSchema b \<noteq> []")
  case True
  then show ?thesis by (simp add: post_cart_handler_def)
next
  case valid: False
  show ?thesis
  proof (cases "cart_findUnique d (pl_id u)")
    case (Some c)
    with valid show ?thesis by (auto simp: post_cart_handler_def)
  next
    case None
    with valid show ?thesis
      by (cases "cart_create d (pl_id u)") (auto simp: post_cart_handler_def)
  qed
qed

lemma wf_post_cart_handler:
  assumes "wf_db d"
  shows "wf_db (fst (post_cart_handler b u d))"
  using post_cart_handler_cases [of b u d] assms wf_add_line wf_cart_create
  by metis

lemma wf_delete_cart_handler:
  assumes "wf_db d"
  shows "wf_db (fst (delete_cart_handler pid u d))"
  using assms wf_cartItem_deleteMany
  by (cases "cart_findUnique d (pl_id u)") (simp_all add: delete_cart_handler_def)

lemma wf_cart_step: "wf_db d \<Longrightarrow> wf_db (cart_step u d call)"
  by (cases call) (simp_all add: wf_post_cart_handler wf_delete_cart_handler)

text \<open>Cart calls leave the users and the products alone.\<close>

lemma cartItem_update_frame:
  "cartItem_update d i q = Inr d' \<Longrightarrow>
   users d' = users d \<and> products d' = products d \<and> carts d' = carts d"
  by (auto simp: cartItem_update_def split: if_splits)

lemma cartItem_create_frame:
  "cartItem_create d cid pid q = Inr d' \<Longrightarrow>
   users d' = users d \<and> products d' = products d \<and> carts d' = carts d"
  by (auto simp: cartItem_create_def split: if_splits)

lemma cart_create_frame:
  "cart_create d uid = Inr (d', c) \<Longrightarrow>
   users d' = users d \<and> products d' = products d \<and> cartItems d' = cartItems d"
  by (auto simp: cart_create_def Let_def split: if_splits)

lemma add_line_frame:
  "users (fst (add_line c b d)) = users d \<and> products (fst (add_line c b d)) = products d \<and>
   carts (fst (add_line c b d)) = carts d"
  using add_line_cases [of c b d] cartItem_update_frame cartItem_create_frame
  by metis

lemma cart_step_frame:
  "users (cart_step u d call) = users d \<and> products (cart_step u d call) = products d"
proof (cases call)
  case (AddToCart pid q)
  from post_cart_handler_cases [of "\<lparr>cb_productId = pid, cb_quantity = q\<rparr>" u d]
    add_line_frame cart_create_frame
  have "users (fst (post_cart_handler \<lparr>cb_productId = pid, cb_quantity = q\<rparr> u d)) = users d \<and>
        products (fst (post_cart_handler \<lparr>cb_productId = pid, cb_quantity = q\<rparr> u d)) = products d"
    by metis
  with AddToCart show ?thesis by simp
next
  case (RemoveFromCart pid)
  then show ?thesis
    by (simp add: delete_cart_handler_def cartItem_deleteMany_def split: option.splits)
qed

subsection \<open>What a call does to the lines\<close>

lemma find_None_fresh_cart:
  assumes "wf_db d"
  shows "filter (\<lambda>i. ci_cartId i = fresh_id (map c_id (carts d))) (cartItems d) = []"
proof -
  have "ci_cartId i \<noteq> fresh_id (map c_id (carts d))" if "i \<in> set (cartItems d)" for i
  proof -
    from assms that have "ci_cartId i \<in> set (map c_id (carts d))"
      by (auto simp: wf_db_def list_all_iff)
    with fresh_id_notin [of "map c_id (carts d)"] show ?thesis by auto
  qed
  then show ?thesis by (simp add: filter_empty_conv)
qed

lemma post_cart_existing_line:
  assumes "0 < q"
    and "cart_findUnique d (pl_id u) = Some c"
    and "cartItem_findFirst d (c_id c) pid = Some ex"
    and "int4 (ci_quantity ex + q)"
  shows "post_cart_handler \<lparr>cb_productId = pid, cb_quantity = q\<rparr> u d =
           (d\<lparr>cartItems := map (\<lambda>x. if ci_id x = ci_id ex
                                       then x\<lparr>ci_quantity := ci_quantity ex + q\<rparr> else x)
                                (cartItems d)\<rparr>,
            json_ok (MessageBody ''Added to cart''))"
proof -
  from assms(3) have "ex \<in> set (cartItems d)"
    by (auto simp: cartItem_findFirst_def find_Some_iff)
  with assms(4) have "cartItem_update d (ci_id ex) (ci_quantity ex + q) =
      Inr (d\<lparr>cartItems := map (\<lambda>x. if ci_id x = ci_id ex
                                       then x\<lparr>ci_quantity := ci_quantity ex + q\<rparr> else x)
                                (cartItems d)\<rparr>)"
    by (simp add: cartItem_update_def)
  with assms show ?thesis
    by (simp add: post_cart_handler_def cartSchema_def add_line_def)
qed

lemma post_cart_new_line:
  assumes "0 < q"
    and "pid \<in> set (map p_id (products d))"
    and "cart_findUnique d (pl_id u) = Some c"
    and "cartItem_findFirst d (c_id c) pid = None"
    and "int4 q"
  shows "post_cart_handler \<lparr>cb_productId = pid, cb_quantity = q\<rparr> u d =
           (d\<lparr>cartItems := cartItems d @
                 [\<lparr>ci_id = fresh_id (map ci_id (cartItems d)), ci_cartId = c_id c,
                   ci_productId = pid, ci_quantity = q\<rparr>]\<rparr>,
            json_ok (MessageBody ''Added to cart''))"
proof -
  from assms(3) have "c \<in> set (carts d)"
    by (auto simp: cart_findUnique_def find_Some_iff)
  with assms(2,5) have "cartItem_create d (c_id c) pid q =
      Inr (d\<lparr>cartItems := cartItems d @
                 [\<lparr>ci_id = fresh_id (map ci_id (cartItems d)), ci_cartId = c_id c,
                   ci_productId = pid, ci_quantity = q\<rparr>]\<rparr>)"
    by (simp add: cartItem_create_def)
  with assms show ?thesis
    by (simp add: post_cart_handler_def cartSchema_def add_line_def)
qed

lemma post_cart_new_cart:
  assumes "0 < q"
    and "pid \<in> set (map p_id (products d))"
    and "pl_id u \<in> set (map u_id (users d))"
    and "wf_db d"
    and "cart_findUnique d (pl_id u) = None"
    and "int4 q"
  shows "post_cart_handler \<lparr>cb_productId = pid, cb_quantity = q\<rparr> u d =
           (d\<lparr>carts := carts d @ [\<lparr>c_id = fresh_id (map c_id (carts d)), c_userId = pl_id u\<rparr>],
              cartItems := cartItems d @
                 [\<lparr>ci_id = fresh_id (map ci_id (cartItems d)),
                   ci_cartId = fresh_id (map c_id (carts d)),
                   ci_productId = pid, ci_quantity = q\<rparr>]\<rparr>,
            json_ok (MessageBody ''Added to cart''))"
proof -
  let ?c = "\<lparr>c_id = fresh_id (map c_id (carts d)), c_userId = pl_id u\<rparr>"
  let ?d1 = "d\<lparr>carts := carts d @ [?c]\<rparr>"
  from assms(5) have "pl_id u \<notin> set (map c_userId (carts d))"
    by (auto simp: cart_findUnique_def find_None_iff)
  with assms(3) have cc: "cart_create d (pl_id u) = Inr (?d1, ?c)"
    by (simp add: cart_create_def Let_def)
  have "find (\<lambda>i. ci_cartId i = c_id ?c \<and> ci_productId i = pid) (cartItems d) = None"
    using find_None_fresh_cart [OF assms(4)]
    by (auto simp: find_None_iff filter_empty_conv)
  then have ff: "cartItem_findFirst ?d1 (c_id ?c) pid = None"
    by (simp add: cartItem_findFirst_def)
  have ci: "cartItem_create ?d1 (c_id ?c) pid q =
      Inr (?d1\<lparr>cartItems := cartItems d @
                 [\<lparr>ci_id = fresh_id (map ci_id (cartItems d)),
                   ci_cartId = fresh_id (map c_id (carts d)),
                   ci_productId = pid, ci_quantity = q\<rparr>]\<rparr>)"
    using assms(2,6) by (simp add: cartItem_create_def)
  have "add_line ?c \<lparr>cb_productId = pid, cb_quantity = q\<rparr> ?d1 =
      (?d1\<lparr>cartItems := cartItems d @
                 [\<lparr>ci_id = fresh_id (map ci_id (cartItems d)),
                   ci_cartId = fresh_id (map c_id (carts d)),
                   ci_productId = pid, ci_quantity = q\<rparr>]\<rparr>,
       json_ok (MessageBody ''Added to cart''))"
    using ff ci by (simp add: add_line_def)
  with assms(1,5) cc show ?thesis
    by (simp add: post_cart_handler_def cartSchema_def)
qed

lemma find_Some_mem: "find P xs = Some x \<Longrightarrow> x \<in> set xs \<and> P x"
  by (induction xs) (auto split: if_splits)

lemma find_app:
  "find P (xs @ ys) = (case find P xs of None \<Rightarrow> find P ys | Some x \<Rightarrow> Some x)"
  by (induction xs) auto

text \<open>
  A call the server refuses: the quantity is not positive (400), or the product does
  not exist or the quantity does not fit the column (500). The lines stay as they
  are; a cart created on the way stays, without lines.
\<close>

lemma add_line_refused:
  assumes "wf_db d"
    and "cartItem_findFirst d (c_id c) pid = None \<longrightarrow>
           \<not> (pid \<in> set (map p_id (products d)) \<and> int4 q)"
    and "\<forall>ex. cartItem_findFirst d (c_id c) pid = Some ex \<longrightarrow> \<not> int4 (ci_quantity ex + q)"
  shows "add_line c \<lparr>cb_productId = pid, cb_quantity = q\<rparr> d =
           (d, json_error 500 ''Failed to add to cart'')"
proof (cases "cartItem_findFirst d (c_id c) pid")
  case None
  with assms(2) have "\<exists>err. cartItem_create d (c_id c) pid q = Inl err"
    by (auto simp: cartItem_create_def)
  with None show ?thesis
    by (auto simp: add_line_def)
next
  case (Some ex)
  with assms(3) have "cartItem_update d (ci_id ex) (ci_quantity ex + q) = Inl ValueOutOfRange"
    by (simp add: cartItem_update_def)
  with Some show ?thesis
    by (simp add: add_line_def)
qed

lemma line_names_product:
  assumes "wf_db d" and "cartItem_findFirst d cid pid = Some ex"
  shows "pid \<in> set (map p_id (products d))"
proof -
  from assms(2) have "ex \<in> set (cartItems d)" "ci_productId ex = pid"
    by (auto simp: cartItem_findFirst_def dest: find_Some_mem)
  with assms(1) show ?thesis
    by (auto simp: wf_db_def list_all_iff)
qed

lemma post_cart_refused:
  assumes wf: "wf_db d"
    and no: "\<not> (0 < q \<and> pid \<in> set (map p_id (products d)) \<and> quantity_fits d (pl_id u) pid q)"
  shows "(fst (post_cart_handler \<lparr>cb_productId = pid, cb_quantity = q\<rparr> u d) = d \<or>
          cart_findUnique d (pl_id u) = None \<and>
          fst (post_cart_handler \<lparr>cb_productId = pid, cb_quantity = q\<rparr> u d) =
            d\<lparr>carts := carts d @ [\<lparr>c_id = fresh_id (map c_id (carts d)), c_userId = pl_id u\<rparr>]\<rparr>) \<and>
         status (snd (post_cart_handler \<lparr>cb_productId = pid, cb_quantity = q\<rparr> u d)) =
           (if 0 < q then 500 else 400)"
proof (cases "0 < q")
  case False
  then show ?thesis
    by (simp add: post_cart_handler_def cartSchema_def invalid_input_def)
next
  case pos: True
  show ?thesis
  proof (cases "cart_findUnique d (pl_id u)")
    case (Some c)
    have a: "cartItem_findFirst d (c_id c) pid = None \<longrightarrow>
           \<not> (pid \<in> set (map p_id (products d)) \<and> int4 q)"
      using no pos Some by (auto simp: quantity_fits_def user_line_def)
    have b: "\<forall>ex. cartItem_findFirst d (c_id c) pid = Some ex \<longrightarrow> \<not> int4 (ci_quantity ex + q)"
      using no pos Some line_names_product [OF wf]
      by (auto simp: quantity_fits_def user_line_def)
    from pos Some add_line_refused [OF wf a b] show ?thesis
      by (simp add: post_cart_handler_def cartSchema_def json_error_def)
  next
    case None
    show ?thesis
    proof (cases "cart_create d (pl_id u)")
      case (Inl err)
      with pos None show ?thesis
        by (simp add: post_cart_handler_def cartSchema_def json_error_def)
    next
      case (Inr r)
      then obtain d1 c where r: "cart_create d (pl_id u) = Inr (d1, c)"
        by (cases r) auto
      then have d1: "d1 = d\<lparr>carts := carts d @ [\<lparr>c_id = fresh_id (map c_id (carts d)), c_userId = pl_id u\<rparr>]\<rparr>"
        and c: "c = \<lparr>c_id = fresh_id (map c_id (carts d)), c_userId = pl_id u\<rparr>"
        by (auto simp: cart_create_def Let_def split: if_splits)
      have wf1: "wf_db d1" by (rule wf_cart_create [OF wf r])
      have "find (\<lambda>i. ci_cartId i = c_id c \<and> ci_productId i = pid) (cartItems d) = None"
        using find_None_fresh_cart [OF wf] c
        by (auto simp: find_None_iff filter_empty_conv)
      then have ff: "cartItem_findFirst d1 (c_id c) pid = None"
        by (simp add: cartItem_findFirst_def d1)
      have a: "cartItem_findFirst d1 (c_id c) pid = None \<longrightarrow>
           \<not> (pid \<in> set (map p_id (products d1)) \<and> int4 q)"
        using no pos None by (auto simp: quantity_fits_def user_line_def d1)
      have b: "\<forall>ex. cartItem_findFirst d1 (c_id c) pid = Some ex \<longrightarrow> \<not> int4 (ci_quantity ex + q)"
        using ff by simp
      from pos None r add_line_refused [OF wf1 a b] d1 show ?thesis
        by (simp add: post_cart_handler_def cartSchema_def json_error_def)
    qed
  qed
qed

text \<open>The lines of the user's cart after each kind of call.\<close>

lemma lines_new_cart:
  assumes "wf_db d" and "cart_findUnique d uid = None"
  shows "user_cart_lines (d\<lparr>carts := carts d @ [\<lparr>c_id = fresh_id (map c_id (carts d)), c_userId = uid\<rparr>],
                            cartItems := cartItems d @ new\<rparr>) uid =
         filter (\<lambda>i. ci_cartId i = fresh_id (map c_id (carts d))) new"
  using assms find_None_fresh_cart [OF assms(1)]
  by (simp add: user_cart_lines_def cart_findUnique_def cart_items_def find_app)

lemma lines_existing_line:
  assumes "cart_findUnique d uid = Some c"
  shows "user_cart_lines (d\<lparr>cartItems := map (\<lambda>x. if ci_id x = k then x\<lparr>ci_quantity := q'\<rparr> else x)
                                            (cartItems d)\<rparr>) uid =
         map (\<lambda>x. if ci_id x = k then x\<lparr>ci_quantity := q'\<rparr> else x) (user_cart_lines d uid)"
proof -
  have h: "(\<lambda>i. ci_cartId i = c_id c) \<circ> (\<lambda>x. if ci_id x = k then x\<lparr>ci_quantity := q'\<rparr> else x) =
        (\<lambda>i. ci_cartId i = c_id c)"
    by (auto simp: fun_eq_iff)
  from assms show ?thesis
    by (simp add: user_cart_lines_def cart_findUnique_def cart_items_def filter_map h)
qed

lemma lines_new_line:
  assumes "cart_findUnique d uid = Some c"
  shows "user_cart_lines (d\<lparr>cartItems := cartItems d @ [\<lparr>ci_id = k, ci_cartId = c_id c,
                                            ci_productId = pid, ci_quantity = q\<rparr>]\<rparr>) uid =
         user_cart_lines d uid @ [\<lparr>ci_id = k, ci_cartId = c_id c, ci_productId = pid, ci_quantity = q\<rparr>]"
  using assms by (simp add: user_cart_lines_def cart_findUnique_def cart_items_def)

lemma lines_removed:
  "user_cart_lines (fst (delete_cart_handler pid u d)) (pl_id u) =
     filter (\<lambda>i. ci_productId i \<noteq> pid) (user_cart_lines d (pl_id u))"
proof (cases "cart_findUnique d (pl_id u)")
  case None
  then show ?thesis
    by (simp add: delete_cart_handler_def user_cart_lines_def)
next
  case (Some c)
  have "filter (\<lambda>i. ci_cartId i = c_id c)
          (filter (\<lambda>i. \<not> (ci_cartId i = c_id c \<and> ci_productId i = pid)) xs) =
        filter (\<lambda>i. ci_productId i \<noteq> pid) (filter (\<lambda>i. ci_cartId i = c_id c) xs)" for xs
    by (induction xs) auto
  with Some show ?thesis
    by (simp add: delete_cart_handler_def user_cart_lines_def cartItem_deleteMany_def
        cart_findUnique_def cart_items_def)
qed

lemma user_line_lines:
  "user_line d uid pid = find (\<lambda>i. ci_productId i = pid) (user_cart_lines d uid)"
proof (cases "cart_findUnique d uid")
  case None
  then show ?thesis by (simp add: user_line_def user_cart_lines_def)
next
  case (Some c)
  have "find (\<lambda>i. ci_cartId i = c_id c \<and> ci_productId i = pid) xs =
        find (\<lambda>i. ci_productId i = pid) (filter (\<lambda>i. ci_cartId i = c_id c) xs)" for xs
    by (induction xs) auto
  with Some show ?thesis
    by (simp add: user_line_def user_cart_lines_def cartItem_findFirst_def cart_items_def)
qed

lemma map_upd_other:
  "k \<notin> set (map ci_id xs) \<Longrightarrow>
   map (\<lambda>x. if ci_id x = k then x\<lparr>ci_quantity := q'\<rparr> else x) xs = xs"
  by (induction xs) auto

lemma sum_qty_update:
  assumes "distinct (map ci_id xs)" and "ex \<in> set xs"
  shows "(\<Sum>i\<leftarrow>filter (\<lambda>i. ci_productId i = p)
              (map (\<lambda>x. if ci_id x = ci_id ex then x\<lparr>ci_quantity := q'\<rparr> else x) xs). ci_quantity i) =
         (\<Sum>i\<leftarrow>filter (\<lambda>i. ci_productId i = p) xs. ci_quantity i) +
           (if ci_productId ex = p then q' - ci_quantity ex else 0)"
  using assms
proof (induction xs)
  case Nil
  then show ?case by simp
next
  case (Cons x xs)
  show ?case
  proof (cases "x = ex")
    case True
    with Cons.prems have "ci_id ex \<notin> set (map ci_id xs)" by simp
    then have "map (\<lambda>x. if ci_id x = ci_id ex then x\<lparr>ci_quantity := q'\<rparr> else x) xs = xs"
      by (rule map_upd_other)
    with True show ?thesis by simp
  next
    case False
    with Cons.prems have ex: "ex \<in> set xs" and "ci_id x \<notin> set (map ci_id xs)" by auto
    then have "ci_id x \<noteq> ci_id ex" by auto
    moreover from Cons.prems have "distinct (map ci_id xs)" by simp
    ultimately show ?thesis
      using Cons.IH ex by simp
  qed
qed

lemma sum_qty_removed:
  "(\<Sum>i\<leftarrow>filter (\<lambda>i. ci_productId i = p) (filter (\<lambda>i. ci_productId i \<noteq> pid) xs). ci_quantity i) =
     (if p = pid then 0 else (\<Sum>i\<leftarrow>filter (\<lambda>i. ci_productId i = p) xs. ci_quantity i))"
  by (induction xs) auto

lemma distinct_lines_ids:
  assumes "wf_db d"
  shows "distinct (map ci_id (user_cart_lines d uid))"
  using assms
  by (auto simp: wf_db_def user_cart_lines_def cart_items_def distinct_map_filter
      split: option.splits)

text \<open>The lines after an accepted \<^verbatim>\<open>POST /cart\<close>.\<close>

lemma lines_after_add:
  assumes wf: "wf_db d"
    and usr: "pl_id u \<in> set (map u_id (users d))"
    and prod: "pid \<in> set (map p_id (products d))"
    and pos: "0 < q"
    and fits: "quantity_fits d (pl_id u) pid q"
  shows "snd (post_cart_handler \<lparr>cb_productId = pid, cb_quantity = q\<rparr> u d) =
           json_ok (MessageBody ''Added to cart'') \<and>
         (case user_line d (pl_id u) pid of
            Some ex \<Rightarrow>
              user_cart_lines (fst (post_cart_handler \<lparr>cb_productId = pid, cb_quantity = q\<rparr> u d)) (pl_id u) =
                map (\<lambda>x. if ci_id x = ci_id ex then x\<lparr>ci_quantity := ci_quantity ex + q\<rparr> else x)
                  (user_cart_lines d (pl_id u))
          | None \<Rightarrow>
              (\<exists>k cid.
                user_cart_lines (fst (post_cart_handler \<lparr>cb_productId = pid, cb_quantity = q\<rparr> u d)) (pl_id u) =
                  user_cart_lines d (pl_id u) @
                    [\<lparr>ci_id = k, ci_cartId = cid, ci_productId = pid, ci_quantity = q\<rparr>]))"
proof (cases "cart_findUnique d (pl_id u)")
  case None
  then have ul: "user_line d (pl_id u) pid = None" "user_cart_lines d (pl_id u) = []"
    by (simp_all add: user_line_def user_cart_lines_def)
  with fits have r: "int4 q"
    by (simp add: quantity_fits_def)
  show ?thesis
    unfolding post_cart_new_cart [OF pos prod usr wf None r] ul
    using lines_new_cart [OF wf None]
    by simp
next
  case (Some c)
  show ?thesis
  proof (cases "cartItem_findFirst d (c_id c) pid")
    case None
    with Some have ul: "user_line d (pl_id u) pid = None"
      by (simp add: user_line_def)
    with fits have r: "int4 q"
      by (simp add: quantity_fits_def)
    show ?thesis
      unfolding post_cart_new_line [OF pos prod Some None r] ul
      using lines_new_line [OF Some]
      by simp
  next
    case ex: (Some ex)
    with Some have ul: "user_line d (pl_id u) pid = Some ex"
      by (simp add: user_line_def)
    with fits have r: "int4 (ci_quantity ex + q)"
      by (simp add: quantity_fits_def)
    show ?thesis
      unfolding post_cart_existing_line [OF pos Some ex r] ul
      using lines_existing_line [OF Some]
      by simp
  qed
qed

lemma qty_after_add:
  assumes wf: "wf_db d"
    and usr: "pl_id u \<in> set (map u_id (users d))"
    and prod: "pid \<in> set (map p_id (products d))"
    and pos: "0 < q"
    and fits: "quantity_fits d (pl_id u) pid q"
  shows "cart_qty (fst (post_cart_handler \<lparr>cb_productId = pid, cb_quantity = q\<rparr> u d)) (pl_id u) =
           (cart_qty d (pl_id u))(pid := cart_qty d (pl_id u) pid + q)"
proof (cases "user_line d (pl_id u) pid")
  case None
  with lines_after_add [OF wf usr prod pos fits] show ?thesis
    by (auto simp: cart_qty_def fun_eq_iff)
next
  case (Some ex)
  then have ex: "ex \<in> set (user_cart_lines d (pl_id u))" "ci_productId ex = pid"
    by (auto simp: user_line_lines dest: find_Some_mem)
  from lines_after_add [OF wf usr prod pos fits] Some
  have "user_cart_lines (fst (post_cart_handler \<lparr>cb_productId = pid, cb_quantity = q\<rparr> u d)) (pl_id u) =
          map (\<lambda>x. if ci_id x = ci_id ex then x\<lparr>ci_quantity := ci_quantity ex + q\<rparr> else x)
            (user_cart_lines d (pl_id u))"
    by simp
  then show ?thesis
    using sum_qty_update [OF distinct_lines_ids [OF wf] ex(1), of _ "ci_quantity ex + q"] ex(2)
    by (auto simp: cart_qty_def fun_eq_iff)
qed

lemma lines_after_refused:
  assumes "wf_db d"
    and "\<not> (0 < q \<and> pid \<in> set (map p_id (products d)) \<and> quantity_fits d (pl_id u) pid q)"
  shows "user_cart_lines (fst (post_cart_handler \<lparr>cb_productId = pid, cb_quantity = q\<rparr> u d)) (pl_id u) =
         user_cart_lines d (pl_id u)"
proof -
  have new: "user_cart_lines
            (d\<lparr>carts := carts d @ [\<lparr>c_id = fresh_id (map c_id (carts d)), c_userId = pl_id u\<rparr>]\<rparr>)
            (pl_id u) = user_cart_lines d (pl_id u)"
    if none: "cart_findUnique d (pl_id u) = None"
  proof -
    from lines_new_cart [OF assms(1) none, of "[]"]
    have "user_cart_lines
            (d\<lparr>carts := carts d @ [\<lparr>c_id = fresh_id (map c_id (carts d)), c_userId = pl_id u\<rparr>]\<rparr>)
            (pl_id u) = []"
      by simp
    with none show ?thesis
      by (simp add: user_cart_lines_def)
  qed
  from post_cart_refused [OF assms, THEN conjunct1] show ?thesis
  proof (elim disjE conjE)
    assume "fst (post_cart_handler \<lparr>cb_productId = pid, cb_quantity = q\<rparr> u d) = d"
    then show ?thesis by simp
  next
    assume "cart_findUnique d (pl_id u) = None"
      and "fst (post_cart_handler \<lparr>cb_productId = pid, cb_quantity = q\<rparr> u d) =
         d\<lparr>carts := carts d @ [\<lparr>c_id = fresh_id (map c_id (carts d)), c_userId = pl_id u\<rparr>]\<rparr>"
    then show ?thesis using new by simp
  qed
qed

lemma unique_after_add:
  assumes wf: "wf_db d"
    and usr: "pl_id u \<in> set (map u_id (users d))"
    and prod: "pid \<in> set (map p_id (products d))"
    and pos: "0 < q"
    and fits: "quantity_fits d (pl_id u) pid q"
    and uniq: "one_line_per_product d (pl_id u)"
  shows "one_line_per_product (fst (post_cart_handler \<lparr>cb_productId = pid, cb_quantity = q\<rparr> u d)) (pl_id u)"
proof (cases "user_line d (pl_id u) pid")
  case None
  then have "pid \<notin> set (map ci_productId (user_cart_lines d (pl_id u)))"
    by (auto simp: user_line_lines find_None_iff)
  with None lines_after_add [OF wf usr prod pos fits] uniq show ?thesis
    by (auto simp: one_line_per_product_def)
next
  case (Some ex)
  have h: "ci_productId \<circ> (\<lambda>x. if ci_id x = k then x\<lparr>ci_quantity := q'\<rparr> else x) = ci_productId"
    for k q' by (auto simp: fun_eq_iff)
  from Some lines_after_add [OF wf usr prod pos fits] uniq show ?thesis
    by (simp add: one_line_per_product_def h)
qed

subsection \<open>One call, then any number of calls\<close>

lemma qty_one_line:
  assumes "distinct (map ci_productId ls)"
  shows "(\<Sum>i\<leftarrow>filter (\<lambda>i. ci_productId i = pid) ls. ci_quantity i) =
         (case find (\<lambda>i. ci_productId i = pid) ls of None \<Rightarrow> 0 | Some ex \<Rightarrow> ci_quantity ex)"
  using assms
proof (induction ls)
  case Nil
  then show ?case by simp
next
  case (Cons x xs)
  show ?case
  proof (cases "ci_productId x = pid")
    case True
    with Cons.prems have "filter (\<lambda>i. ci_productId i = pid) xs = []"
      by (auto simp: filter_empty_conv image_iff)
    with True show ?thesis by simp
  next
    case False
    with Cons show ?thesis by simp
  qed
qed

text \<open>With one line for a product, the product's quantity is the quantity of its line.\<close>

lemma cart_qty_line:
  assumes "one_line_per_product d uid"
  shows "cart_qty d uid pid = (case user_line d uid pid of None \<Rightarrow> 0 | Some ex \<Rightarrow> ci_quantity ex)"
  using qty_one_line [of "user_cart_lines d uid" pid] assms
  by (simp add: cart_qty_def one_line_per_product_def user_line_lines)

lemma quantity_fits_qty:
  assumes "one_line_per_product d uid"
  shows "quantity_fits d uid pid q = int4 (cart_qty d uid pid + q)"
  by (simp add: quantity_fits_def cart_qty_line [OF assms])

lemma find_distinct:
  "distinct (map f ls) \<Longrightarrow> i \<in> set ls \<Longrightarrow> find (\<lambda>x. f x = f i) ls = Some i"
  by (induction ls) (auto simp: image_iff)

lemma line_qty:
  assumes "one_line_per_product d uid" and "i \<in> set (user_cart_lines d uid)"
  shows "ci_quantity i = cart_qty d uid (ci_productId i)"
proof -
  from assms have "find (\<lambda>x. ci_productId x = ci_productId i) (user_cart_lines d uid) = Some i"
    by (intro find_distinct) (simp_all add: one_line_per_product_def)
  then show ?thesis
    by (simp add: cart_qty_line [OF assms(1)] user_line_lines)
qed

lemma cart_step_qty:
  assumes "wf_db d" and "pl_id u \<in> set (map u_id (users d))"
    and "one_line_per_product d (pl_id u)"
  shows "cart_qty (cart_step u d call) (pl_id u) = spec_step d (cart_qty d (pl_id u)) call"
proof (cases call)
  case (AddToCart pid q)
  show ?thesis
  proof (cases "0 < q \<and> pid \<in> set (map p_id (products d)) \<and> quantity_fits d (pl_id u) pid q")
    case True
    then have "0 < q" "pid \<in> set (map p_id (products d))" "quantity_fits d (pl_id u) pid q"
      by simp_all
    from qty_after_add [OF assms(1,2) this(2,1,3)] True AddToCart show ?thesis
      by (simp add: quantity_fits_qty [OF assms(3)])
  next
    case False
    with lines_after_refused [OF assms(1) False] AddToCart show ?thesis
      by (auto simp: cart_qty_def quantity_fits_qty [OF assms(3)])
  qed
next
  case (RemoveFromCart pid)
  then show ?thesis
    by (simp add: cart_qty_def fun_eq_iff lines_removed sum_qty_removed del: filter_filter)
qed

lemma cart_step_unique:
  assumes "wf_db d" and "pl_id u \<in> set (map u_id (users d))"
    and "one_line_per_product d (pl_id u)"
  shows "one_line_per_product (cart_step u d call) (pl_id u)"
proof (cases call)
  case (AddToCart pid q)
  show ?thesis
  proof (cases "0 < q \<and> pid \<in> set (map p_id (products d)) \<and> quantity_fits d (pl_id u) pid q")
    case True
    then have "0 < q" "pid \<in> set (map p_id (products d))" "quantity_fits d (pl_id u) pid q"
      by simp_all
    from unique_after_add [OF assms(1,2) this(2,1,3) assms(3)] AddToCart show ?thesis by simp
  next
    case False
    with lines_after_refused [OF assms(1) False] AddToCart assms(3) show ?thesis
      by (simp add: one_line_per_product_def)
  qed
next
  case (RemoveFromCart pid)
  with assms(3) show ?thesis
    by (simp add: one_line_per_product_def lines_removed distinct_map_filter)
qed

lemma spec_step_products:
  "products d1 = products d \<Longrightarrow> spec_step d1 m call = spec_step d m call"
  by (cases call) simp_all

lemma spec_run_products:
  assumes "products d1 = products d"
  shows "spec_run d1 calls m = spec_run d calls m"
proof -
  have "spec_step d1 = spec_step d"
    by (intro ext) (simp add: spec_step_products [OF assms])
  then show ?thesis by (simp only: spec_run_def)
qed

lemma cart_run_frame:
  assumes "wf_db d"
  shows "wf_db (cart_run u calls d) \<and> users (cart_run u calls d) = users d \<and>
         products (cart_run u calls d) = products d"
  using assms
proof (induction calls arbitrary: d)
  case Nil
  then show ?case by (simp add: cart_run_def)
next
  case (Cons call calls)
  have run: "cart_run u (call # calls) d = cart_run u calls (cart_step u d call)"
    by (simp add: cart_run_def)
  from Cons.IH [OF wf_cart_step [OF Cons.prems]] cart_step_frame [of u d call]
  show ?case unfolding run by simp
qed

lemma cart_run_invariant:
  assumes "wf_db d" and "pl_id u \<in> set (map u_id (users d))"
    and "one_line_per_product d (pl_id u)"
  shows "one_line_per_product (cart_run u calls d) (pl_id u) \<and>
         cart_qty (cart_run u calls d) (pl_id u) = spec_run d calls (cart_qty d (pl_id u))"
  using assms
proof (induction calls arbitrary: d)
  case Nil
  then show ?case by (simp add: cart_run_def spec_run_def)
next
  case (Cons call calls)
  let ?d1 = "cart_step u d call"
  have wf1: "wf_db ?d1" by (rule wf_cart_step [OF Cons.prems(1)])
  have fr: "users ?d1 = users d" "products ?d1 = products d"
    using cart_step_frame [of u d call] by simp_all
  then have usr1: "pl_id u \<in> set (map u_id (users ?d1))"
    using Cons.prems(2) by simp
  have uniq1: "one_line_per_product ?d1 (pl_id u)"
    by (rule cart_step_unique [OF Cons.prems])
  note IH = Cons.IH [OF wf1 usr1 uniq1]
  have run: "cart_run u (call # calls) d = cart_run u calls ?d1"
    by (simp add: cart_run_def)
  have "spec_run d (call # calls) (cart_qty d (pl_id u)) =
        spec_run d calls (spec_step d (cart_qty d (pl_id u)) call)"
    by (simp add: spec_run_def)
  also have "\<dots> = spec_run d calls (cart_qty ?d1 (pl_id u))"
    by (simp only: cart_step_qty [OF Cons.prems, of call])
  also have "\<dots> = spec_run ?d1 calls (cart_qty ?d1 (pl_id u))"
    by (rule spec_run_products [OF fr(2), symmetric])
  finally have spec: "spec_run d (call # calls) (cart_qty d (pl_id u)) =
              spec_run ?d1 calls (cart_qty ?d1 (pl_id u))" .
  from IH show ?case
    unfolding run spec by (simp only: simp_thms)
qed

text \<open>On a store with valid references the reduction of \<^verbatim>\<open>POST /orders\<close> is the spec's sum.\<close>

lemma computed_total_spec:
  assumes "wf_db d"
  shows "computed_total e d uid = Some (spec_cart_total e d uid)"
proof (cases "cart_findUnique d uid")
  case None
  then show ?thesis
    by (simp add: computed_total_def cart_findUnique_items_def spec_cart_total_def user_cart_lines_def)
next
  case (Some c)
  from those_include_product [OF wf_db_cart(2) [OF assms Some]]
  obtain its where its: "those (map (include_product d) (cart_items d (c_id c))) = Some its"
    "map fst its = cart_items d (c_id c)"
    "list_all (\<lambda>(i, p). product_findUnique d (ci_productId i) = Some p) its"
    by blast
  from Some its(1) have "computed_total e d uid = Some (cart_total e its)"
    by (simp add: computed_total_def cart_findUnique_items_def)
  also have "cart_total e its = spec_cart_total e d uid"
    using cart_total_joined [OF its(3), of e] its(2) Some
    by (simp add: spec_cart_total_def user_cart_lines_def)
  finally show ?thesis .
qed

lemma cart_after_add:
  assumes wf: "wf_db d"
    and usr: "pl_id u \<in> set (map u_id (users d))"
    and prod: "pid \<in> set (map p_id (products d))"
    and pos: "0 < q"
    and fits: "quantity_fits d (pl_id u) pid q"
  shows "\<exists>c. cart_findUnique (fst (post_cart_handler \<lparr>cb_productId = pid, cb_quantity = q\<rparr> u d)) (pl_id u)
               = Some c \<and>
             (case cart_findUnique d (pl_id u) of
                Some c0 \<Rightarrow> c = c0 \<and>
                  carts (fst (post_cart_handler \<lparr>cb_productId = pid, cb_quantity = q\<rparr> u d)) = carts d
              | None \<Rightarrow>
                  carts (fst (post_cart_handler \<lparr>cb_productId = pid, cb_quantity = q\<rparr> u d)) = carts d @ [c])"
proof (cases "cart_findUnique d (pl_id u)")
  case None
  with fits have r: "int4 q"
    by (simp add: quantity_fits_def user_line_def)
  show ?thesis
    unfolding post_cart_new_cart [OF pos prod usr wf None r]
    using None by (simp add: cart_findUnique_def find_app)
next
  case (Some c)
  show ?thesis
  proof (cases "cartItem_findFirst d (c_id c) pid")
    case None
    with fits Some have r: "int4 q"
      by (simp add: quantity_fits_def user_line_def)
    show ?thesis
      unfolding post_cart_new_line [OF pos prod Some None r]
      using Some by (simp add: cart_findUnique_def)
  next
    case ex: (Some ex)
    with fits Some have r: "int4 (ci_quantity ex + q)"
      by (simp add: quantity_fits_def user_line_def)
    show ?thesis
      unfolding post_cart_existing_line [OF pos Some ex r]
      using Some by (simp add: cart_findUnique_def)
  qed
qed

text \<open>
  C6, as the code has it. For a request that passes the token check as a stored
  user, on a store whose references are valid, \<^verbatim>\<open>POST /cart\<close> with a positive
  quantity does the following. When the product is stored and the quantity the line
  would hold (the quantity sent, plus the line's if the cart has a line for the
  product) fits the 32-bit quantity column, it answers 200; afterwards the user has
  a cart, the one they had or else a new one; a line the cart had for the product
  holds the old quantity plus the quantity sent and the other lines are as before,
  otherwise one line with the quantity sent is added; the product's quantity in the
  cart has grown by the quantity sent. When that quantity does not fit, the store
  rejects the write: the answer is 500 and the lines are as before. After any
  sequence of add and remove calls of that user the products are untouched and the
  total the server computes from the cart is the sum over the cart's lines of the
  current product price times the quantity (taken line by line in the arithmetic of
  JavaScript numbers); and a cart with one line for a product keeps one line for a
  product, each line holding the quantity the spec's add and remove give.
\<close>

theorem add_to_cart_lines_and_total:
  assumes "authenticated e h u" and "wf_db d" and "pl_id u \<in> set (map u_id (users d))"
  shows "(pid \<in> set (map p_id (products d)) \<and> 0 < q \<and> quantity_fits d (pl_id u) pid q \<longrightarrow>
            snd (post_cart e h \<lparr>cb_productId = pid, cb_quantity = q\<rparr> d) =
              json_ok (MessageBody ''Added to cart'') \<and>
            (\<exists>c. cart_findUnique (fst (post_cart e h \<lparr>cb_productId = pid, cb_quantity = q\<rparr> d)) (pl_id u)
                    = Some c \<and>
                 (case cart_findUnique d (pl_id u) of
                    Some c0 \<Rightarrow> c = c0 \<and>
                      carts (fst (post_cart e h \<lparr>cb_productId = pid, cb_quantity = q\<rparr> d)) = carts d
                  | None \<Rightarrow>
                      carts (fst (post_cart e h \<lparr>cb_productId = pid, cb_quantity = q\<rparr> d)) = carts d @ [c])) \<and>
            (case user_line d (pl_id u) pid of
               Some ex \<Rightarrow>
                 user_cart_lines (fst (post_cart e h \<lparr>cb_productId = pid, cb_quantity = q\<rparr> d)) (pl_id u) =
                   map (\<lambda>x. if ci_id x = ci_id ex then x\<lparr>ci_quantity := ci_quantity ex + q\<rparr> else x)
                     (user_cart_lines d (pl_id u))
             | None \<Rightarrow>
                 (\<exists>k cid.
                   user_cart_lines (fst (post_cart e h \<lparr>cb_productId = pid, cb_quantity = q\<rparr> d)) (pl_id u) =
                     user_cart_lines d (pl_id u) @
                       [\<lparr>ci_id = k, ci_cartId = cid, ci_productId = pid, ci_quantity = q\<rparr>])) \<and>
            cart_qty (fst (post_cart e h \<lparr>cb_productId = pid, cb_quantity = q\<rparr> d)) (pl_id u) pid =
              cart_qty d (pl_id u) pid + q) \<and>
         (0 < q \<and> \<not> quantity_fits d (pl_id u) pid q \<longrightarrow>
            status (snd (post_cart e h \<lparr>cb_productId = pid, cb_quantity = q\<rparr> d)) = 500 \<and>
            user_cart_lines (fst (post_cart e h \<lparr>cb_productId = pid, cb_quantity = q\<rparr> d)) (pl_id u) =
              user_cart_lines d (pl_id u)) \<and>
         (\<forall>calls.
            products (cart_run u calls d) = products d \<and>
            computed_total e (cart_run u calls d) (pl_id u) =
              Some (spec_cart_total e (cart_run u calls d) (pl_id u)) \<and>
            (one_line_per_product d (pl_id u) \<longrightarrow>
               one_line_per_product (cart_run u calls d) (pl_id u) \<and>
               cart_qty (cart_run u calls d) (pl_id u) = spec_run d calls (cart_qty d (pl_id u)) \<and>
               (\<forall>i\<in>set (user_cart_lines (cart_run u calls d) (pl_id u)).
                  ci_quantity i = spec_run d calls (cart_qty d (pl_id u)) (ci_productId i))))"
proof -
  have r: "post_cart e h b d = post_cart_handler b u d" for b
    using assms(1) by (simp add: post_cart_def authenticateToken_ok)
  have one: "snd (post_cart_handler \<lparr>cb_productId = pid, cb_quantity = q\<rparr> u d) =
              json_ok (MessageBody ''Added to cart'') \<and>
            (\<exists>c. cart_findUnique (fst (post_cart_handler \<lparr>cb_productId = pid, cb_quantity = q\<rparr> u d)) (pl_id u)
                    = Some c \<and>
                 (case cart_findUnique d (pl_id u) of
                    Some c0 \<Rightarrow> c = c0 \<and>
                      carts (fst (post_cart_handler \<lparr>cb_productId = pid, cb_quantity = q\<rparr> u d)) = carts d
                  | None \<Rightarrow>
                      carts (fst (post_cart_handler \<lparr>cb_productId = pid, cb_quantity = q\<rparr> u d)) = carts d @ [c])) \<and>
            (case user_line d (pl_id u) pid of
               Some ex \<Rightarrow>
                 user_cart_lines (fst (post_cart_handler \<lparr>cb_productId = pid, cb_quantity = q\<rparr> u d)) (pl_id u) =
                   map (\<lambda>x. if ci_id x = ci_id ex then x\<lparr>ci_quantity := ci_quantity ex + q\<rparr> else x)
                     (user_cart_lines d (pl_id u))
             | None \<Rightarrow>
                 (\<exists>k cid.
                   user_cart_lines (fst (post_cart_handler \<lparr>cb_productId = pid, cb_quantity = q\<rparr> u d)) (pl_id u) =
                     user_cart_lines d (pl_id u) @
                       [\<lparr>ci_id = k, ci_cartId = cid, ci_productId = pid, ci_quantity = q\<rparr>])) \<and>
            cart_qty (fst (post_cart_handler \<lparr>cb_productId = pid, cb_quantity = q\<rparr> u d)) (pl_id u) pid =
              cart_qty d (pl_id u) pid + q"
    if prod: "pid \<in> set (map p_id (products d))" and pos: "0 < q"
      and fits: "quantity_fits d (pl_id u) pid q"
  proof -
    note a = lines_after_add [OF assms(2,3) prod pos fits]
    note b = cart_after_add [OF assms(2,3) prod pos fits]
    have c: "cart_qty (fst (post_cart_handler \<lparr>cb_productId = pid, cb_quantity = q\<rparr> u d)) (pl_id u) pid =
              cart_qty d (pl_id u) pid + q"
      by (simp add: qty_after_add [OF assms(2,3) prod pos fits])
    from a b c show ?thesis by (intro conjI) blast+
  qed
  have refused: "status (snd (post_cart_handler \<lparr>cb_productId = pid, cb_quantity = q\<rparr> u d)) = 500 \<and>
            user_cart_lines (fst (post_cart_handler \<lparr>cb_productId = pid, cb_quantity = q\<rparr> u d)) (pl_id u) =
              user_cart_lines d (pl_id u)"
    if pos: "0 < q" and no: "\<not> quantity_fits d (pl_id u) pid q"
  proof -
    from no have n: "\<not> (0 < q \<and> pid \<in> set (map p_id (products d)) \<and> quantity_fits d (pl_id u) pid q)"
      by simp
    from post_cart_refused [OF assms(2) n, THEN conjunct2] pos lines_after_refused [OF assms(2) n]
    show ?thesis by simp
  qed
  have many: "products (cart_run u calls d) = products d \<and>
            computed_total e (cart_run u calls d) (pl_id u) =
              Some (spec_cart_total e (cart_run u calls d) (pl_id u)) \<and>
            (one_line_per_product d (pl_id u) \<longrightarrow>
               one_line_per_product (cart_run u calls d) (pl_id u) \<and>
               cart_qty (cart_run u calls d) (pl_id u) = spec_run d calls (cart_qty d (pl_id u)) \<and>
               (\<forall>i\<in>set (user_cart_lines (cart_run u calls d) (pl_id u)).
                  ci_quantity i = spec_run d calls (cart_qty d (pl_id u)) (ci_productId i)))" for calls
  proof -
    note f = cart_run_frame [OF assms(2), of u calls]
    from f have t: "computed_total e (cart_run u calls d) (pl_id u) =
              Some (spec_cart_total e (cart_run u calls d) (pl_id u))"
      by (simp add: computed_total_spec)
    have "one_line_per_product (cart_run u calls d) (pl_id u) \<and>
               cart_qty (cart_run u calls d) (pl_id u) = spec_run d calls (cart_qty d (pl_id u)) \<and>
               (\<forall>i\<in>set (user_cart_lines (cart_run u calls d) (pl_id u)).
                  ci_quantity i = spec_run d calls (cart_qty d (pl_id u)) (ci_productId i))"
      if uniq: "one_line_per_product d (pl_id u)"
    proof -
      note inv = cart_run_invariant [OF assms(2,3) uniq, of calls]
      from inv have u': "one_line_per_product (cart_run u calls d) (pl_id u)"
        and q': "cart_qty (cart_run u calls d) (pl_id u) = spec_run d calls (cart_qty d (pl_id u))"
        by blast+
      have "ci_quantity i = spec_run d calls (cart_qty d (pl_id u)) (ci_productId i)"
        if "i \<in> set (user_cart_lines (cart_run u calls d) (pl_id u))" for i
        using line_qty [OF u' that] by (simp only: q')
      with u' q' show ?thesis by blast
    qed
    with f t show ?thesis by blast
  qed
  show ?thesis
    unfolding r using one refused many by blast
qed

text \<open>
  Alice adds three gadgets to her cart of two widgets and a gadget; a quantity that
  would take her gadgets beyond the column's range is refused; and after a run of
  six calls, three of them refused, her cart holds four gadgets and a widget: 30.
\<close>

theorem add_to_cart_lines_and_total_witness:
  "authenticated shop_env (Some ''Bearer jwt-u1'') alice \<and> wf_db shop \<and>
   pl_id alice \<in> set (map u_id (users shop)) \<and>
   ''p2'' \<in> set (map p_id (products shop)) \<and>
   quantity_fits shop (pl_id alice) ''p2'' 3 \<and>
   user_cart_lines
     (fst (post_cart shop_env (Some ''Bearer jwt-u1'') \<lparr>cb_productId = ''p2'', cb_quantity = 3\<rparr> shop))
     (pl_id alice) =
     [\<lparr>ci_id = ''i1'', ci_cartId = ''c1'', ci_productId = ''p1'', ci_quantity = 2\<rparr>,
      \<lparr>ci_id = ''i2'', ci_cartId = ''c1'', ci_productId = ''p2'', ci_quantity = 4\<rparr>] \<and>
   cart_qty
     (fst (post_cart shop_env (Some ''Bearer jwt-u1'') \<lparr>cb_productId = ''p2'', cb_quantity = 3\<rparr> shop))
     (pl_id alice) ''p2'' = 4 \<and>
   \<not> quantity_fits shop (pl_id alice) ''p2'' 2147483647 \<and>
   status (snd (post_cart shop_env (Some ''Bearer jwt-u1'')
     \<lparr>cb_productId = ''p2'', cb_quantity = 2147483647\<rparr> shop)) = 500 \<and>
   one_line_per_product shop (pl_id alice) \<and>
   computed_total shop_env
     (cart_run alice [AddToCart ''p2'' 3, RemoveFromCart ''p1'', AddToCart ''p1'' 1,
        AddToCart ''p9'' 1, AddToCart ''p1'' 0, AddToCart ''p2'' 2147483647] shop) (pl_id alice) =
     Some (Finite 30) \<and>
   cart_qty
     (cart_run alice [AddToCart ''p2'' 3, RemoveFromCart ''p1'', AddToCart ''p1'' 1,
        AddToCart ''p9'' 1, AddToCart ''p1'' 0, AddToCart ''p2'' 2147483647] shop) (pl_id alice) ''p1'' = 1 \<and>
   cart_qty
     (cart_run alice [AddToCart ''p2'' 3, RemoveFromCart ''p1'', AddToCart ''p1'' 1,
        AddToCart ''p9'' 1, AddToCart ''p1'' 0, AddToCart ''p2'' 2147483647] shop) (pl_id alice) ''p2'' = 4 \<and>
   one_line_per_product
     (cart_run alice [AddToCart ''p2'' 3, RemoveFromCart ''p1'', AddToCart ''p1'' 1,
        AddToCart ''p9'' 1, AddToCart ''p1'' 0, AddToCart ''p2'' 2147483647] shop) (pl_id alice)"
proof -
  let ?calls = "[AddToCart ''p2'' 3, RemoveFromCart ''p1'', AddToCart ''p1'' 1,
        AddToCart ''p9'' 1, AddToCart ''p1'' 0, AddToCart ''p2'' 2147483647]"
  let ?i1 = "\<lparr>ci_id = ''i1'', ci_cartId = ''c1'', ci_productId = ''p1'', ci_quantity = 2\<rparr>"
  let ?i2 = "\<lparr>ci_id = ''i2'', ci_cartId = ''c1'', ci_productId = ''p2'', ci_quantity = 1\<rparr>"
  have a: "authenticated shop_env (Some ''Bearer jwt-u1'') alice"
    by (simp add: authenticated_def falsy_def header_token_def shop_env_def)
  have wf: "wf_db shop"
    by (simp add: wf_db_def shop_def)
  have usr: "pl_id alice \<in> set (map u_id (users shop))"
    by (simp add: shop_def alice_def)
  have prod: "''p2'' \<in> set (map p_id (products shop))"
    by (simp add: shop_def)
  have ls: "user_cart_lines shop (pl_id alice) = [?i1, ?i2]"
    by (simp add: user_cart_lines_def cart_findUnique_def cart_items_def shop_def alice_def)
  have ul: "user_line shop (pl_id alice) ''p2'' = Some ?i2"
    by (simp add: user_line_def cart_findUnique_def cartItem_findFirst_def shop_def alice_def)
  have fits: "quantity_fits shop (pl_id alice) ''p2'' 3"
    and nofit: "\<not> quantity_fits shop (pl_id alice) ''p2'' 2147483647"
    by (simp_all add: quantity_fits_def ul int4_def)
  have q0: "cart_qty shop (pl_id alice) = (\<lambda>p. if p = ''p1'' then 2 else if p = ''p2'' then 1 else 0)"
    by (auto simp: cart_qty_def ls fun_eq_iff)
  have u0: "one_line_per_product shop (pl_id alice)"
    by (simp add: one_line_per_product_def ls)
  note T = add_to_cart_lines_and_total [OF a wf usr, of "''p2''" 3]
  note N = add_to_cart_lines_and_total [OF a wf usr, of "''p2''" 2147483647]
  from T prod ul fits
  have 1: "user_cart_lines
     (fst (post_cart shop_env (Some ''Bearer jwt-u1'') \<lparr>cb_productId = ''p2'', cb_quantity = 3\<rparr> shop))
     (pl_id alice) = [?i1, ?i2\<lparr>ci_quantity := 4\<rparr>]"
    by (simp add: ls)
  from T prod fits
  have 2: "cart_qty
     (fst (post_cart shop_env (Some ''Bearer jwt-u1'') \<lparr>cb_productId = ''p2'', cb_quantity = 3\<rparr> shop))
     (pl_id alice) ''p2'' = 4"
    by (simp add: q0)
  from N nofit
  have 7: "status (snd (post_cart shop_env (Some ''Bearer jwt-u1'')
     \<lparr>cb_productId = ''p2'', cb_quantity = 2147483647\<rparr> shop)) = 500"
    by simp
  from T have S: "computed_total shop_env (cart_run alice ?calls shop) (pl_id alice) =
              Some (spec_cart_total shop_env (cart_run alice ?calls shop) (pl_id alice))"
    and QU: "one_line_per_product shop (pl_id alice) \<longrightarrow>
              one_line_per_product (cart_run alice ?calls shop) (pl_id alice) \<and>
              cart_qty (cart_run alice ?calls shop) (pl_id alice) =
                spec_run shop ?calls (cart_qty shop (pl_id alice))"
    by blast+
  from QU u0 have U: "one_line_per_product (cart_run alice ?calls shop) (pl_id alice)"
    and Q: "cart_qty (cart_run alice ?calls shop) (pl_id alice) =
              spec_run shop ?calls (cart_qty shop (pl_id alice))"
    by blast+
  have tot: "spec_cart_total shop_env (cart_run alice ?calls shop) (pl_id alice) = Finite 30"
    by (simp add: spec_cart_total_def user_cart_lines_def cart_items_def line_price_def
      product_findUnique_def int4_def
      cart_run_def post_cart_handler_def cartSchema_def add_line_def cart_findUnique_def
      cartItem_findFirst_def cartItem_update_def cartItem_create_def cart_create_def
      delete_cart_handler_def cartItem_deleteMany_def fresh_id_def json_error_def json_ok_def
      invalid_input_def shop_def alice_def Let_def shop_env_def num_of_int_def round64_small)
  have 3: "computed_total shop_env (cart_run alice ?calls shop) (pl_id alice) = Some (Finite 30)"
    using S tot by simp
  have 4: "cart_qty (cart_run alice ?calls shop) (pl_id alice) ''p1'' = 1"
    and 5: "cart_qty (cart_run alice ?calls shop) (pl_id alice) ''p2'' = 4"
    unfolding Q q0 by (simp_all add: spec_run_def shop_def int4_def)
  from a wf usr prod fits nofit u0 1 2 3 4 5 7 U show ?thesis by simp
qed

text \<open>
  C6 as stated fails for a quantity the column cannot hold: Carol's 2147483648
  widgets are not added to her empty cart, and 2147483646 more widgets do not make
  Alice's two widgets 2147483648; both calls are answered 500 and leave the lines
  as they were.
\<close>

theorem quantity_out_of_range_counterexample:
  "status (snd (post_cart shop_env (Some ''Bearer jwt-u3'')
      \<lparr>cb_productId = ''p1'', cb_quantity = 2147483648\<rparr> shop)) = 500 \<and>
   user_cart_lines (fst (post_cart shop_env (Some ''Bearer jwt-u3'')
      \<lparr>cb_productId = ''p1'', cb_quantity = 2147483648\<rparr> shop)) (pl_id carol) = [] \<and>
   status (snd (post_cart shop_env (Some ''Bearer jwt-u1'')
      \<lparr>cb_productId = ''p1'', cb_quantity = 2147483646\<rparr> shop)) = 500 \<and>
   user_cart_lines (fst (post_cart shop_env (Some ''Bearer jwt-u1'')
      \<lparr>cb_productId = ''p1'', cb_quantity = 2147483646\<rparr> shop)) (pl_id alice) =
     [\<lparr>ci_id = ''i1'', ci_cartId = ''c1'', ci_productId = ''p1'', ci_quantity = 2\<rparr>,
      \<lparr>ci_id = ''i2'', ci_cartId = ''c1'', ci_productId = ''p2'', ci_quantity = 1\<rparr>]"
  by (simp add: post_cart_def authenticateToken_def header_token_def falsy_def shop_env_def
      alice_def carol_def post_cart_handler_def cartSchema_def add_line_def cart_findUnique_def
      cartItem_findFirst_def cartItem_update_def cartItem_create_def int4_def
      user_cart_lines_def cart_items_def json_error_def shop_def)

section \<open>Valid references in every store the routes produce\<close>

text \<open>
  The hypothesis \<open>wf_db\<close> of the statements above holds of the empty store and is
  kept by every route of the model, whatever the request is and however it ends.
\<close>

lemma wf_db_empty:
  "wf_db \<lparr>users = [], products = [], carts = [], cartItems = [], orders = [], orderItems = [],
          messages = []\<rparr>"
  by (simp add: wf_db_def)

lemma wf_db_same_keys:
  assumes "wf_db d"
    and "map u_id (users d') = map u_id (users d)"
    and "map p_id (products d') = map p_id (products d)"
    and "carts d' = carts d" and "cartItems d' = cartItems d"
  shows "wf_db d'"
  using assms by (simp add: wf_db_def)

lemma wf_authenticateToken:
  assumes "\<And>u. wf_db (fst (next u d))" and "wf_db d"
  shows "wf_db (fst (authenticateToken e h next d))"
  using assms by (simp add: authenticateToken_def Let_def split: option.splits)

lemma wf_post_auth_register:
  assumes "wf_db d"
  shows "wf_db (fst (post_auth_register e b d))"
  using assms
  by (auto simp: post_auth_register_def user_create_def wf_db_def list_all_iff Let_def)

lemma wf_put_admin_products:
  assumes "wf_db d"
  shows "wf_db (fst (put_admin_products e h i b d))"
proof -
  have k: "p_id \<circ> (\<lambda>x. if p_id x = i then apply_product_body b x else x) = p_id"
    by (auto simp: fun_eq_iff apply_product_body_def)
  have "wf_db (fst (put_admin_products_handler i b d))"
    by (rule wf_db_same_keys [OF assms])
       (cases "product_findUnique d i";
        simp add: put_admin_products_handler_def product_update_def k)+
  then have "wf_db (fst (requireAdmin (put_admin_products_handler i b) u d))" for u
    using assms by (simp add: requireAdmin_def split: option.splits)
  then show ?thesis
    unfolding put_admin_products_def using assms by (rule wf_authenticateToken)
qed

lemma wf_post_cart:
  assumes "wf_db d"
  shows "wf_db (fst (post_cart e h b d))"
  unfolding post_cart_def using wf_post_cart_handler [OF assms] assms
  by (rule wf_authenticateToken)

lemma wf_delete_cart:
  assumes "wf_db d"
  shows "wf_db (fst (delete_cart e h pid d))"
  unfolding delete_cart_def using wf_delete_cart_handler [OF assms] assms
  by (rule wf_authenticateToken)

lemma wf_post_orders:
  assumes "wf_db d"
  shows "wf_db (fst (post_orders e fails h d))"
proof -
  have "wf_db (fst (post_orders_handler e fails u d))" for u
    using assms
    by (auto simp: post_orders_handler_def order_create_def cartItem_deleteMany_def wf_db_def
        list_all_iff distinct_map_filter Let_def
        split: sum.splits option.splits if_splits)
  then show ?thesis
    unfolding post_orders_def using assms by (rule wf_authenticateToken)
qed

lemma wf_post_messages:
  assumes "wf_db d"
  shows "wf_db (fst (post_messages h b d))"
  using assms
  by (auto simp: post_messages_def message_create_def wf_db_def Let_def split: option.splits)

lemma wf_post_admin_make_admin:
  assumes "wf_db d"
  shows "wf_db (fst (post_admin_make_admin e h i d))"
proof -
  have k: "u_id \<circ> (\<lambda>x. if u_id x = i then x\<lparr>u_isAdmin := True\<rparr> else x) = u_id"
    by (auto simp: fun_eq_iff)
  have "wf_db (fst (make_admin_handler i u d))" for u
    by (rule wf_db_same_keys [OF assms])
       (cases "user_findUnique_id d i";
        simp add: make_admin_handler_def user_update_isAdmin_def k)+
  then show ?thesis
    unfolding post_admin_make_admin_def using assms by (rule wf_authenticateToken)
qed

section \<open>Quantities in every store the routes produce\<close>

text \<open>
  The store never holds a quantity outside the range of its column: the empty store
  has none, and every route of the model keeps the property.
\<close>

lemma in_range_empty:
  "quantities_in_range \<lparr>users = [], products = [], carts = [], cartItems = [], orders = [],
     orderItems = [], messages = []\<rparr>"
  by (simp add: quantities_in_range_def)

lemma in_range_same_lines:
  "quantities_in_range d \<Longrightarrow> cartItems d' = cartItems d \<Longrightarrow> quantities_in_range d'"
  by (simp add: quantities_in_range_def)

lemma in_range_authenticateToken:
  assumes "\<And>u. quantities_in_range (fst (next u d))" and "quantities_in_range d"
  shows "quantities_in_range (fst (authenticateToken e h next d))"
  using assms by (simp add: authenticateToken_def Let_def split: option.splits)

lemma in_range_cartItem_update:
  assumes "quantities_in_range d" and "cartItem_update d i q = Inr d'"
  shows "quantities_in_range d'"
  using assms
  by (auto simp: cartItem_update_def quantities_in_range_def list_all_iff split: if_splits)

lemma in_range_cartItem_create:
  assumes "quantities_in_range d" and "cartItem_create d cid pid q = Inr d'"
  shows "quantities_in_range d'"
  using assms
  by (auto simp: cartItem_create_def quantities_in_range_def list_all_iff split: if_splits)

lemma in_range_cartItem_deleteMany:
  "quantities_in_range d \<Longrightarrow> quantities_in_range (cartItem_deleteMany d wh)"
  by (auto simp: cartItem_deleteMany_def quantities_in_range_def list_all_iff)

lemma in_range_cart_create:
  assumes "quantities_in_range d" and "cart_create d uid = Inr (d', c)"
  shows "quantities_in_range d'"
  using assms cart_create_frame [OF assms(2)] by (simp add: quantities_in_range_def)

lemma in_range_add_line:
  assumes "quantities_in_range d"
  shows "quantities_in_range (fst (add_line c b d))"
  using add_line_cases [of c b d] assms in_range_cartItem_update in_range_cartItem_create
  by metis

lemma in_range_post_cart:
  assumes "quantities_in_range d"
  shows "quantities_in_range (fst (post_cart e h b d))"
proof -
  have "quantities_in_range (fst (post_cart_handler b u d))" for u
    using post_cart_handler_cases [of b u d] assms in_range_add_line in_range_cart_create
    by metis
  then show ?thesis
    unfolding post_cart_def using assms by (rule in_range_authenticateToken)
qed

lemma in_range_delete_cart:
  assumes "quantities_in_range d"
  shows "quantities_in_range (fst (delete_cart e h pid d))"
proof -
  have "quantities_in_range (fst (delete_cart_handler pid u d))" for u
    using assms in_range_cartItem_deleteMany
    by (cases "cart_findUnique d (pl_id u)") (simp_all add: delete_cart_handler_def)
  then show ?thesis
    unfolding delete_cart_def using assms by (rule in_range_authenticateToken)
qed

lemma in_range_post_orders:
  assumes "quantities_in_range d"
  shows "quantities_in_range (fst (post_orders e fails h d))"
proof -
  have "quantities_in_range (fst (post_orders_handler e fails u d))" for u
    using assms
    by (auto simp: post_orders_handler_def order_create_def cartItem_deleteMany_def
        quantities_in_range_def list_all_iff Let_def
        split: sum.splits option.splits if_splits)
  then show ?thesis
    unfolding post_orders_def using assms by (rule in_range_authenticateToken)
qed

lemma in_range_post_auth_register:
  assumes "quantities_in_range d"
  shows "quantities_in_range (fst (post_auth_register e b d))"
  using assms
  by (auto simp: post_auth_register_def user_create_def quantities_in_range_def Let_def)

lemma in_range_put_admin_products:
  assumes "quantities_in_range d"
  shows "quantities_in_range (fst (put_admin_products e h i b d))"
proof -
  have "quantities_in_range (fst (put_admin_products_handler i b d))"
    by (rule in_range_same_lines [OF assms])
       (cases "product_findUnique d i";
        simp add: put_admin_products_handler_def product_update_def)+
  then have "quantities_in_range (fst (requireAdmin (put_admin_products_handler i b) u d))" for u
    using assms by (simp add: requireAdmin_def split: option.splits)
  then show ?thesis
    unfolding put_admin_products_def using assms by (rule in_range_authenticateToken)
qed

lemma in_range_post_messages:
  assumes "quantities_in_range d"
  shows "quantities_in_range (fst (post_messages h b d))"
  using assms
  by (auto simp: post_messages_def message_create_def quantities_in_range_def Let_def
      split: option.splits)

lemma in_range_post_admin_make_admin:
  assumes "quantities_in_range d"
  shows "quantities_in_range (fst (post_admin_make_admin e h i d))"
proof -
  have "quantities_in_range (fst (make_admin_handler i u d))" for u
    by (rule in_range_same_lines [OF assms])
       (cases "user_findUnique_id d i";
        simp add: make_admin_handler_def user_update_isAdmin_def)+
  then show ?thesis
    unfolding post_admin_make_admin_def using assms by (rule in_range_authenticateToken)
qed

end
